theory Spec2Isabelle
  imports Complex_Main
begin

section \<open>Numbers\<close>

subsection \<open>The C++ type double\<close>

text \<open>
  A \<^verbatim>\<open>double\<close> is a finite number, one of the two infinities, or a NaN. The finite
  numbers are modelled by the reals they denote, and the two zeros are one value, taken
  as +0. Comparisons, the special values and their propagation follow IEEE 754: every
  comparison with a NaN is false.

  There are two families of operations. \<open>dadd\<close>, \<open>dsub\<close>, \<open>dmul\<close>, \<open>ddiv\<close>, \<open>dexp\<close> and
  \<open>dsqrt\<close> compute the exact result on finite numbers: they leave rounding, overflow and
  underflow out. \<open>fadd\<close>, \<open>fsub\<close>, \<open>fmul\<close> and \<open>fdiv\<close>, defined further down, round
  that result to the nearest binary64 number as the processor does. The rounded
  operations model the division of \<^verbatim>\<open>update_L_\<close>, the product of
  \<^verbatim>\<open>set_nominal_stepsize_and_L\<close>, the vector operations of \<^verbatim>\<open>compute_criterion\<close> and
  the sums and the quotient of \<^verbatim>\<open>calc_ELBO\<close>, whose properties depend on the rounding.
\<close>

datatype double = Fin real | PInf | NInf | NaN

fun isnan :: "double \<Rightarrow> bool" where
  "isnan NaN = True"
| "isnan _ = False"

fun isfinite :: "double \<Rightarrow> bool" where
  "isfinite (Fin _) = True"
| "isfinite _ = False"

text \<open>\<^verbatim>\<open>a < b\<close> on doubles.\<close>

fun dless :: "double \<Rightarrow> double \<Rightarrow> bool" where
  "dless (Fin x) (Fin y) = (x < y)"
| "dless (Fin _) PInf = True"
| "dless NInf (Fin _) = True"
| "dless NInf PInf = True"
| "dless _ _ = False"

text \<open>\<^verbatim>\<open>a <= b\<close> on doubles.\<close>

fun dle :: "double \<Rightarrow> double \<Rightarrow> bool" where
  "dle (Fin x) (Fin y) = (x \<le> y)"
| "dle (Fin _) PInf = True"
| "dle NInf (Fin _) = True"
| "dle NInf NInf = True"
| "dle NInf PInf = True"
| "dle PInf PInf = True"
| "dle (Fin _) NInf = False"
| "dle PInf (Fin _) = False"
| "dle PInf NInf = False"
| "dle NaN _ = False"
| "dle _ NaN = False"

text \<open>\<^verbatim>\<open>a > b\<close> on doubles.\<close>

definition dgreater :: "double \<Rightarrow> double \<Rightarrow> bool" where
  "dgreater a b = dless b a"

fun dneg :: "double \<Rightarrow> double" where
  "dneg (Fin x) = Fin (- x)"
| "dneg PInf = NInf"
| "dneg NInf = PInf"
| "dneg NaN = NaN"

fun dadd :: "double \<Rightarrow> double \<Rightarrow> double" where
  "dadd (Fin x) (Fin y) = Fin (x + y)"
| "dadd NaN _ = NaN"
| "dadd _ NaN = NaN"
| "dadd PInf NInf = NaN"
| "dadd NInf PInf = NaN"
| "dadd PInf _ = PInf"
| "dadd NInf _ = NInf"
| "dadd _ PInf = PInf"
| "dadd _ NInf = NInf"

definition dsub :: "double \<Rightarrow> double \<Rightarrow> double" where
  "dsub a b = dadd a (dneg b)"

text \<open>The sign of a product or quotient with an infinity: zero counts as +0.\<close>

definition signed_inf :: "bool \<Rightarrow> double" where
  "signed_inf negative = (if negative then NInf else PInf)"

fun dmul :: "double \<Rightarrow> double \<Rightarrow> double" where
  "dmul (Fin x) (Fin y) = Fin (x * y)"
| "dmul NaN _ = NaN"
| "dmul _ NaN = NaN"
| "dmul (Fin x) PInf = (if x = 0 then NaN else signed_inf (x < 0))"
| "dmul (Fin x) NInf = (if x = 0 then NaN else signed_inf (0 < x))"
| "dmul PInf (Fin y) = (if y = 0 then NaN else signed_inf (y < 0))"
| "dmul NInf (Fin y) = (if y = 0 then NaN else signed_inf (0 < y))"
| "dmul PInf PInf = PInf"
| "dmul PInf NInf = NInf"
| "dmul NInf PInf = NInf"
| "dmul NInf NInf = PInf"

fun ddiv :: "double \<Rightarrow> double \<Rightarrow> double" where
  "ddiv (Fin x) (Fin y) =
     (if y \<noteq> 0 then Fin (x / y) else if x = 0 then NaN else signed_inf (x < 0))"
| "ddiv NaN _ = NaN"
| "ddiv _ NaN = NaN"
| "ddiv (Fin _) PInf = Fin 0"
| "ddiv (Fin _) NInf = Fin 0"
| "ddiv PInf (Fin y) = signed_inf (y < 0)"
| "ddiv NInf (Fin y) = signed_inf (0 \<le> y)"
| "ddiv PInf PInf = NaN"
| "ddiv PInf NInf = NaN"
| "ddiv NInf PInf = NaN"
| "ddiv NInf NInf = NaN"

text \<open>\<^verbatim>\<open>std::abs\<close>, \<^verbatim>\<open>std::exp\<close> and \<^verbatim>\<open>sqrt\<close>.\<close>

fun dabs :: "double \<Rightarrow> double" where
  "dabs (Fin x) = Fin \<bar>x\<bar>"
| "dabs PInf = PInf"
| "dabs NInf = PInf"
| "dabs NaN = NaN"

fun dexp :: "double \<Rightarrow> double" where
  "dexp (Fin x) = Fin (exp x)"
| "dexp PInf = PInf"
| "dexp NInf = Fin 0"
| "dexp NaN = NaN"

fun dsqrt :: "double \<Rightarrow> double" where
  "dsqrt (Fin x) = (if 0 \<le> x then Fin (sqrt x) else NaN)"
| "dsqrt PInf = PInf"
| "dsqrt NInf = NaN"
| "dsqrt NaN = NaN"

subsection \<open>Rounding to binary64\<close>

text \<open>
  Rounding to the nearest integer, ties to the even one.
\<close>

definition round_to_even :: "real \<Rightarrow> int" where
  "round_to_even y =
     (let n = \<lfloor>y\<rfloor>; d = y - of_int n
      in if d < 1 / 2 then n else if 1 / 2 < d then n + 1 else if even n then n else n + 1)"

text \<open>
  The binary exponent of a real other than 0, not below that of the subnormal numbers.
\<close>

definition exponent :: "real \<Rightarrow> int" where
  "exponent x = max \<lfloor>log 2 \<bar>x\<bar>\<rfloor> (- 1022)"

text \<open>
  The binary64 number nearest to a real, ties to even: a multiple of
  \<open>2\<^bsup>e - 52\<^esup>\<close> for the exponent \<open>e\<close> of the real (so the significand has 53 bits,
  and the subnormal numbers are the multiples of \<open>2\<^bsup>-1074\<^esup>\<close>), and an infinity
  when that multiple is \<open>2\<^bsup>1024\<^esup>\<close> or more in magnitude.
\<close>

definition fl :: "real \<Rightarrow> double" where
  "fl x =
     (if x = 0 then Fin 0
      else (let u = 2 powi (exponent x - 52); r = of_int (round_to_even (x / u)) * u
            in if 2 ^ 1024 \<le> \<bar>r\<bar> then signed_inf (x < 0) else Fin r))"

fun rounded :: "double \<Rightarrow> double" where
  "rounded (Fin x) = fl x"
| "rounded PInf = PInf"
| "rounded NInf = NInf"
| "rounded NaN = NaN"

text \<open>\<^verbatim>\<open>a + b\<close>, \<^verbatim>\<open>a - b\<close>, \<^verbatim>\<open>a * b\<close> and \<^verbatim>\<open>a / b\<close> on doubles: the exact result, rounded.\<close>

definition fadd :: "double \<Rightarrow> double \<Rightarrow> double" where
  "fadd a b = rounded (dadd a b)"


definition fmul :: "double \<Rightarrow> double \<Rightarrow> double" where
  "fmul a b = rounded (dmul a b)"

definition fdiv :: "double \<Rightarrow> double \<Rightarrow> double" where
  "fdiv a b = rounded (ddiv a b)"

subsection \<open>Maximum\<close>

text \<open>\<^verbatim>\<open>std::max(a, b)\<close> is \<^verbatim>\<open>(a < b) ? b : a\<close>.\<close>

definition dmax :: "double \<Rightarrow> double \<Rightarrow> double" where
  "dmax a b = (if dless a b then b else a)"

subsection \<open>The C++ type int\<close>

text \<open>
  An \<^verbatim>\<open>int\<close> is a mathematical integer in the 32-bit range. Converting a double to
  \<^verbatim>\<open>int\<close> truncates towards zero; the behaviour is undefined (\<open>None\<close>) when the
  truncated value is not in the range, and for an infinity or a NaN.
\<close>

definition INT_MIN :: int where
  "INT_MIN = - 2147483648"

definition INT_MAX :: int where
  "INT_MAX = 2147483647"

definition is_int :: "int \<Rightarrow> bool" where
  "is_int n = (INT_MIN \<le> n \<and> n \<le> INT_MAX)"

definition trunc_to_zero :: "real \<Rightarrow> int" where
  "trunc_to_zero x = (if 0 \<le> x then \<lfloor>x\<rfloor> else \<lceil>x\<rceil>)"

fun static_cast_int :: "double \<Rightarrow> int option" where
  "static_cast_int (Fin x) = (if is_int (trunc_to_zero x) then Some (trunc_to_zero x) else None)"
| "static_cast_int _ = None"

text \<open>\<^verbatim>\<open>static_cast<double>(n)\<close> of an \<^verbatim>\<open>int\<close>.\<close>

definition static_cast_double :: "int \<Rightarrow> double" where
  "static_cast_double n = Fin (of_int n)"

section \<open>Static HMC: \<^verbatim>\<open>base_static_hmc\<close>\<close>

subsection \<open>Phase-space points, samples and the sampler state\<close>

record ps_point =
  q :: "double list"
  p :: "double list"
  V :: double
  g :: "double list"

record sample =
  cont_params :: "double list"
  log_prob :: double
  accept_stat :: double

text \<open>
  The members of \<^verbatim>\<open>base_hmc\<close> and \<^verbatim>\<open>base_static_hmc\<close>; \<open>rng\<close> is the state of the
  random number generator the sampler refers to.
\<close>

record 'r static_hmc =
  z :: ps_point
  nom_epsilon :: double
  epsilon :: double
  T :: double
  L :: int
  rng :: 'r

subsection \<open>Step size and integration time\<close>

text \<open>
  \<^verbatim>\<open>update_L_\<close>: \<^verbatim>\<open>L_ = static_cast<int>(T_ / nom_epsilon_); L_ = L_ < 1 ? 1 : L_;\<close>
  The quotient is the rounded one. The result is \<open>None\<close> when the conversion is
  undefined.
\<close>

definition update_L :: "'r static_hmc \<Rightarrow> 'r static_hmc option" where
  "update_L s =
     (case static_cast_int (fdiv (T s) (nom_epsilon s)) of
        None \<Rightarrow> None
      | Some l \<Rightarrow> Some (s\<lparr>L := (if l < 1 then 1 else l)\<rparr>))"

definition set_nominal_stepsize_and_T ::
  "double \<Rightarrow> double \<Rightarrow> 'r static_hmc \<Rightarrow> 'r static_hmc option" where
  "set_nominal_stepsize_and_T e t s =
     (if dgreater e (Fin 0) \<and> dgreater t (Fin 0)
      then update_L (s\<lparr>nom_epsilon := e, T := t\<rparr>)
      else Some s)"

definition set_nominal_stepsize_and_L ::
  "double \<Rightarrow> int \<Rightarrow> 'r static_hmc \<Rightarrow> 'r static_hmc option" where
  "set_nominal_stepsize_and_L e l s =
     (if dgreater e (Fin 0) \<and> l > 0
      then Some (s\<lparr>nom_epsilon := e, L := l, T := fmul e (static_cast_double l)\<rparr>)
      else Some s)"

definition set_T :: "double \<Rightarrow> 'r static_hmc \<Rightarrow> 'r static_hmc option" where
  "set_T t s =
     (if dgreater t (Fin 0) then update_L (s\<lparr>T := t\<rparr>) else Some s)"

definition set_nominal_stepsize :: "double \<Rightarrow> 'r static_hmc \<Rightarrow> 'r static_hmc option" where
  "set_nominal_stepsize e s =
     (if dgreater e (Fin 0) then update_L (s\<lparr>nom_epsilon := e\<rparr>) else Some s)"

definition get_T :: "'r static_hmc \<Rightarrow> double" where
  "get_T s = T s"

definition get_L :: "'r static_hmc \<Rightarrow> int" where
  "get_L s = L s"

subsection \<open>The Hamiltonian, the integrator and the base sampler\<close>

text \<open>
  Modelled from the spec: the Hamiltonian, template parameter \<^verbatim>\<open>H\<close> of the sampler (the
  metric classes are not among the sources). A metric gives the momentum it draws, the
  kinetic energy of a point, and the potential energy and its gradient at a position.
\<close>

record 'r hamiltonian =
  draw_p :: "ps_point \<Rightarrow> 'r \<Rightarrow> double list \<times> 'r"
  tau :: "ps_point \<Rightarrow> double"
  phi :: "double list \<Rightarrow> double"
  dphi_dq :: "double list \<Rightarrow> double list"

text \<open>
  Modelled from the spec: \<^verbatim>\<open>sample_p(z, rng)\<close> draws a momentum according to the
  kinetic distribution of the metric.
\<close>

definition hamiltonian_sample_p :: "'r hamiltonian \<Rightarrow> ps_point \<Rightarrow> 'r \<Rightarrow> ps_point \<times> 'r" where
  "hamiltonian_sample_p ham pt r = (case draw_p ham pt r of (p', r') \<Rightarrow> (pt\<lparr>p := p'\<rparr>, r'))"

text \<open>
  Modelled from the spec: \<^verbatim>\<open>init(z)\<close> evaluates the potential and its gradient at
  \<^verbatim>\<open>z.q\<close>, caching them into \<^verbatim>\<open>z\<close>.
\<close>

definition hamiltonian_init :: "'r hamiltonian \<Rightarrow> ps_point \<Rightarrow> ps_point" where
  "hamiltonian_init ham pt = pt\<lparr>V := phi ham (q pt), g := dphi_dq ham (q pt)\<rparr>"

text \<open>Modelled from the spec: \<^verbatim>\<open>V(z)\<close> is the cached potential energy of the point.\<close>

definition hamiltonian_V :: "'r hamiltonian \<Rightarrow> ps_point \<Rightarrow> double" where
  "hamiltonian_V ham pt = V pt"

text \<open>Modelled from the spec: \<^verbatim>\<open>H(z) = T(z) + V(z)\<close>.\<close>

definition hamiltonian_H :: "'r hamiltonian \<Rightarrow> ps_point \<Rightarrow> double" where
  "hamiltonian_H ham pt = dadd (tau ham pt) (hamiltonian_V ham pt)"

text \<open>
  What a sampler is instantiated with: its Hamiltonian, the integrator's
  \<^verbatim>\<open>evolve(z, hamiltonian, epsilon)\<close> (template parameter \<^verbatim>\<open>I\<close>), the jitter applied to
  the nominal step size, and the uniform generator on [0, 1).
\<close>

record 'r hmc_env =
  hamiltonian :: "'r hamiltonian"
  evolve :: "ps_point \<Rightarrow> 'r hamiltonian \<Rightarrow> double \<Rightarrow> ps_point"
  jitter :: "double \<Rightarrow> 'r \<Rightarrow> double \<times> 'r"
  rand_uniform :: "'r \<Rightarrow> double \<times> 'r"

text \<open>
  Modelled from the spec: \<^verbatim>\<open>sample_stepsize()\<close> of \<^verbatim>\<open>base_hmc\<close> (not among the
  sources) samples the step, possibly jittered, from the nominal step size.
\<close>

definition sample_stepsize :: "'r hmc_env \<Rightarrow> 'r static_hmc \<Rightarrow> 'r static_hmc" where
  "sample_stepsize env s =
     (case jitter env (nom_epsilon s) (rng s) of (e, r) \<Rightarrow> s\<lparr>epsilon := e, rng := r\<rparr>)"

text \<open>
  Modelled from the spec: \<^verbatim>\<open>seed(q)\<close> of \<^verbatim>\<open>base_hmc\<close> (not among the sources)
  copies the given position into \<^verbatim>\<open>z.q\<close>.
\<close>

definition seed :: "double list \<Rightarrow> 'r static_hmc \<Rightarrow> 'r static_hmc" where
  "seed q0 s = s\<lparr>z := (z s)\<lparr>q := q0\<rparr>\<rparr>"

subsection \<open>\<^verbatim>\<open>transition\<close>\<close>

text \<open>
  Lines 30 to 35: the step size is sampled, the point is seeded with the continuous
  parameters of the initial sample, a momentum is drawn and the point is initialised.
\<close>

definition prepare :: "'r hmc_env \<Rightarrow> 'r static_hmc \<Rightarrow> sample \<Rightarrow> 'r static_hmc" where
  "prepare env s init_sample =
     (let s1 = sample_stepsize env s;
          s2 = seed (cont_params init_sample) s1
      in case hamiltonian_sample_p (hamiltonian env) (z s2) (rng s2) of
           (z', r') \<Rightarrow> s2\<lparr>z := hamiltonian_init (hamiltonian env) z', rng := r'\<rparr>)"

text \<open>The loop of lines 41 to 43: \<^verbatim>\<open>L_\<close> steps of the integrator (none when \<^verbatim>\<open>L_ <= 0\<close>).\<close>

definition integrate :: "'r hmc_env \<Rightarrow> 'r static_hmc \<Rightarrow> ps_point" where
  "integrate env s =
     ((\<lambda>pt. evolve env pt (hamiltonian env) (epsilon s)) ^^ nat (L s)) (z s)"

text \<open>Line 46: a NaN energy becomes \<open>+\<infinity>\<close>.\<close>

definition nan_to_inf :: "double \<Rightarrow> double" where
  "nan_to_inf h = (if isnan h then PInf else h)"

text \<open>
  Lines 50 and 51: the uniform generator is called only when \<^verbatim>\<open>acceptProb < 1\<close>, and
  the snapshot is restored when its draw is greater than \<^verbatim>\<open>acceptProb\<close>.
\<close>

definition metropolis ::
  "'r hmc_env \<Rightarrow> double \<Rightarrow> ps_point \<Rightarrow> 'r static_hmc \<Rightarrow> 'r static_hmc" where
  "metropolis env acceptProb z_init s =
     (if dless acceptProb (Fin 1)
      then (case rand_uniform env (rng s) of
              (u, r) \<Rightarrow> if dgreater u acceptProb then s\<lparr>z := z_init, rng := r\<rparr> else s\<lparr>rng := r\<rparr>)
      else s)"

definition transition :: "'r hmc_env \<Rightarrow> 'r static_hmc \<Rightarrow> sample \<Rightarrow> sample \<times> 'r static_hmc" where
  "transition env s init_sample =
     (let s1 = prepare env s init_sample;
          z_init = z s1;
          H0 = hamiltonian_H (hamiltonian env) (z s1);
          s2 = s1\<lparr>z := integrate env s1\<rparr>;
          h = nan_to_inf (hamiltonian_H (hamiltonian env) (z s2));
          acceptProb = dexp (dsub H0 h);
          s3 = metropolis env acceptProb z_init s2;
          acceptProb' = (if dgreater acceptProb (Fin 1) then Fin 1 else acceptProb)
      in (\<lparr>cont_params = q (z s3),
           log_prob = dneg (hamiltonian_V (hamiltonian env) (z s3)),
           accept_stat = acceptProb'\<rparr>, s3))"

text \<open>
  The quantities of one transition that the properties below speak about: the energy
  \<^verbatim>\<open>H0\<close> at the start of the trajectory, the energy \<^verbatim>\<open>h\<close> at its end (as computed on
  line 45), the acceptance probability of line 48, the uniform draw of line 50, and
  whether the test of line 50 rejects.
\<close>

definition energy_H0 :: "'r hmc_env \<Rightarrow> 'r static_hmc \<Rightarrow> sample \<Rightarrow> double" where
  "energy_H0 env s init_sample = hamiltonian_H (hamiltonian env) (z (prepare env s init_sample))"

definition energy_h :: "'r hmc_env \<Rightarrow> 'r static_hmc \<Rightarrow> sample \<Rightarrow> double" where
  "energy_h env s init_sample =
     hamiltonian_H (hamiltonian env) (integrate env (prepare env s init_sample))"

definition accept_prob :: "'r hmc_env \<Rightarrow> 'r static_hmc \<Rightarrow> sample \<Rightarrow> double" where
  "accept_prob env s init_sample =
     dexp (dsub (energy_H0 env s init_sample) (nan_to_inf (energy_h env s init_sample)))"

definition uniform_draw :: "'r hmc_env \<Rightarrow> 'r static_hmc \<Rightarrow> sample \<Rightarrow> double" where
  "uniform_draw env s init_sample = fst (rand_uniform env (rng (prepare env s init_sample)))"

definition rejects :: "'r hmc_env \<Rightarrow> 'r static_hmc \<Rightarrow> sample \<Rightarrow> bool" where
  "rejects env s init_sample =
     (dless (accept_prob env s init_sample) (Fin 1) \<and>
      dgreater (uniform_draw env s init_sample) (accept_prob env s init_sample))"

section \<open>NUTS with a unit metric: \<^verbatim>\<open>unit_e_nuts\<close>\<close>




text \<open>
  Modelled from the spec: the Euclidean dot product and the difference of two vectors
  as the specification writes them, in exact arithmetic: \<open>a \<cdot> b\<close> is the sum of the
  \<open>a\<^sub>i b\<^sub>i\<close>, and \<open>(a - b)\<^sub>i = a\<^sub>i - b\<^sub>i\<close>.
\<close>

fun euclidean_dot :: "double list \<Rightarrow> double list \<Rightarrow> double" where
  "euclidean_dot (x # xs) (y # ys) = dadd (dmul x y) (euclidean_dot xs ys)"
| "euclidean_dot _ _ = Fin 0"





section \<open>ADVI: \<^verbatim>\<open>advi\<close>\<close>

subsection \<open>Exceptions, streams and results\<close>

text \<open>
  The exceptions of \<^verbatim>\<open>stan::math\<close>, all of them \<^verbatim>\<open>std::exception\<close>s:
  \<^verbatim>\<open>domain_error(function, name, y, msg1, msg2)\<close> with its five arguments,
  \<^verbatim>\<open>invalid_argument\<close> as \<^verbatim>\<open>check_size_match\<close> raises it for two sizes, and any other
  exception with its message.
\<close>

datatype val = IntVal int | DoubleVal double

datatype exn =
    Domain_error string string val string string
  | Invalid_argument string string int string int
  | Exception string

text \<open>
  What is written to a stream: a text, a number, or the message of an exception. A
  stream pointer is \<open>None\<close> when it is null and holds what has been written otherwise.
\<close>

datatype token = Text string | Num val | What exn

record 'r io =
  gen :: 'r
  print_stream :: "token list option"

definition put :: "token list \<Rightarrow> 'r io \<Rightarrow> 'r io" where
  "put ts w =
     (case print_stream w of
        None \<Rightarrow> w
      | Some out \<Rightarrow> w\<lparr>print_stream := Some (out @ ts)\<rparr>)"

text \<open>
  How a call ends: it returns a value, throws, or has undefined behaviour (a conversion
  to \<^verbatim>\<open>int\<close> out of range, an integer division by zero, the read of an uninitialised
  variable).
\<close>

datatype 'a outcome = Returns 'a | Throws exn | Undefined

subsection \<open>Argument checks of \<^verbatim>\<open>stan::math\<close>\<close>

definition check_positive :: "string \<Rightarrow> string \<Rightarrow> int \<Rightarrow> exn + unit" where
  "check_positive function name y =
     (if y > 0 then Inr ()
      else Inl (Domain_error function name (IntVal y) ''is '' '', but must be > 0!''))"

definition check_positive_double :: "string \<Rightarrow> string \<Rightarrow> double \<Rightarrow> exn + unit" where
  "check_positive_double function name y =
     (if dgreater y (Fin 0) then Inr ()
      else Inl (Domain_error function name (DoubleVal y) ''is '' '', but must be > 0!''))"

definition check_nonnegative :: "string \<Rightarrow> string \<Rightarrow> double \<Rightarrow> exn + unit" where
  "check_nonnegative function name y =
     (if dle (Fin 0) y then Inr ()
      else Inl (Domain_error function name (DoubleVal y) ''is '' '', but must be >= 0!''))"

definition check_finite :: "string \<Rightarrow> string \<Rightarrow> double \<Rightarrow> exn + unit" where
  "check_finite function name y =
     (if isfinite y then Inr ()
      else Inl (Domain_error function name (DoubleVal y) ''is '' '', but must be finite!''))"

definition check_size_match :: "string \<Rightarrow> string \<Rightarrow> int \<Rightarrow> string \<Rightarrow> int \<Rightarrow> exn + unit" where
  "check_size_match function name_i i name_j j =
     (if i = j then Inr () else Inl (Invalid_argument function name_i i name_j j))"

subsection \<open>The model, the variational family and the \<^verbatim>\<open>advi\<close> object\<close>

text \<open>
  The model, template parameter \<^verbatim>\<open>M\<close>: its number of parameters and its log density,
  which may throw.
\<close>

record model =
  num_params_r :: int
  model_log_prob :: "double list \<Rightarrow> exn + double"

text \<open>
  The variational family, template parameter \<^verbatim>\<open>Q\<close>, with the operations \<^verbatim>\<open>advi\<close>
  uses: the constructors \<^verbatim>\<open>Q(dimension)\<close> and \<^verbatim>\<open>Q(cont_params)\<close>, \<^verbatim>\<open>dimension()\<close>,
  \<^verbatim>\<open>sample(rng, zeta)\<close>, \<^verbatim>\<open>entropy()\<close>,
  \<^verbatim>\<open>calc_grad(elbo_grad, model, cont_params, n_monte_carlo_grad, rng, print_stream)\<close>,
  which may throw, \<^verbatim>\<open>square()\<close>, \<^verbatim>\<open>sqrt()\<close>, and the operators \<^verbatim>\<open>Q + Q\<close>,
  \<^verbatim>\<open>double * Q\<close>, \<^verbatim>\<open>Q / Q\<close> and \<^verbatim>\<open>double + Q\<close>.
\<close>

record ('q, 'r) family =
  q_of_dimension :: "int \<Rightarrow> 'q"
  q_of_params :: "double list \<Rightarrow> 'q"
  q_dimension :: "'q \<Rightarrow> int"
  q_sample :: "'q \<Rightarrow> 'r \<Rightarrow> double list \<times> 'r"
  q_entropy :: "'q \<Rightarrow> double"
  q_calc_grad :: "'q \<Rightarrow> 'q \<Rightarrow> model \<Rightarrow> double list \<Rightarrow> int \<Rightarrow> 'r \<Rightarrow> exn + 'q \<times> 'r"
  q_square :: "'q \<Rightarrow> 'q"
  q_sqrt :: "'q \<Rightarrow> 'q"
  q_add :: "'q \<Rightarrow> 'q \<Rightarrow> 'q"
  q_scale :: "double \<Rightarrow> 'q \<Rightarrow> 'q"
  q_div :: "'q \<Rightarrow> 'q \<Rightarrow> 'q"
  q_shift :: "double \<Rightarrow> 'q \<Rightarrow> 'q"

record ('q, 'r) advi =
  model :: model
  family :: "('q, 'r) family"
  advi_cont_params :: "double list"
  n_monte_carlo_grad :: int
  n_monte_carlo_elbo :: int
  eval_elbo :: int
  n_posterior_samples :: int

text \<open>The constructor, with its three checks.\<close>

definition new_advi ::
  "model \<Rightarrow> ('q, 'r) family \<Rightarrow> double list \<Rightarrow> int \<Rightarrow> int \<Rightarrow> int \<Rightarrow> int \<Rightarrow> exn + ('q, 'r) advi" where
  "new_advi m fam params n_grad n_elbo n_eval n_post =
     (case check_positive ''stan::variational::advi''
             ''Number of Monte Carlo samples for gradients'' n_grad of
        Inl e \<Rightarrow> Inl e
      | Inr _ \<Rightarrow>
     (case check_positive ''stan::variational::advi''
             ''Number of Monte Carlo samples for ELBO'' n_elbo of
        Inl e \<Rightarrow> Inl e
      | Inr _ \<Rightarrow>
     (case check_positive ''stan::variational::advi''
             ''Number of posterior samples for output'' n_post of
        Inl e \<Rightarrow> Inl e
      | Inr _ \<Rightarrow>
          Inr \<lparr>model = m, family = fam, advi_cont_params = params,
               n_monte_carlo_grad = n_grad, n_monte_carlo_elbo = n_elbo,
               eval_elbo = n_eval, n_posterior_samples = n_post\<rparr>)))"

subsection \<open>\<^verbatim>\<open>calc_ELBO\<close>\<close>

definition write_error_msg :: "exn \<Rightarrow> 'r io \<Rightarrow> 'r io" where
  "write_error_msg e w =
     put [Text ''Informational Message: The current sample evaluation of the ELBO is ignored because of the following issue:'',
          What e,
          Text ''If this warning occurs often then your model may be either severely ill-conditioned or misspecified.''] w"

text \<open>
  The body of the \<^verbatim>\<open>try\<close> block up to the check: the log density of a draw, and the
  exception of \<^verbatim>\<open>check_finite\<close> when it is not finite.
\<close>

definition energy :: "('q, 'r) advi \<Rightarrow> double list \<Rightarrow> exn + double" where
  "energy a zeta =
     (case model_log_prob (model a) zeta of
        Inl e \<Rightarrow> Inl e
      | Inr energy_i \<Rightarrow>
          (case check_finite ''stan::variational::advi::calc_ELBO'' ''energy_i'' energy_i of
             Inl e \<Rightarrow> Inl e
           | Inr _ \<Rightarrow> Inr energy_i))"

definition drop_limit_error :: "('q, 'r) advi \<Rightarrow> exn" where
  "drop_limit_error a =
     Domain_error ''stan::variational::advi::calc_ELBO'' ''The number of dropped evaluations''
       (IntVal (n_monte_carlo_elbo a)) ''has reached its maximum amount (''
       ''). Your model may be either severely ill-conditioned or misspecified.''"

text \<open>
  The state in which the loop of lines 98 to 118 ends: the exception thrown, if any,
  the counters \<^verbatim>\<open>i\<close> and \<^verbatim>\<open>n_monte_carlo_drop\<close>, the sum \<^verbatim>\<open>elbo\<close>, and the generator and
  the streams. The sum is accumulated in double arithmetic.
\<close>

record 'r elbo_exit =
  thrown :: "exn option"
  valid :: int
  dropped :: int
  total :: double
  world :: "'r io"

function calc_ELBO_loop ::
  "('q, 'r) advi \<Rightarrow> 'q \<Rightarrow> int \<Rightarrow> int \<Rightarrow> double \<Rightarrow> 'r io \<Rightarrow> 'r elbo_exit" where
  "calc_ELBO_loop a variational i n_monte_carlo_drop elbo w =
     (if i < n_monte_carlo_elbo a
      then (case q_sample (family a) variational (gen w) of
              (zeta, r) \<Rightarrow>
                (case energy a zeta of
                   Inr energy_i \<Rightarrow>
                     calc_ELBO_loop a variational (i + 1) n_monte_carlo_drop
                       (fadd elbo energy_i) (w\<lparr>gen := r\<rparr>)
                 | Inl e \<Rightarrow>
                     if n_monte_carlo_drop + 1 \<ge> n_monte_carlo_elbo a
                     then \<lparr>thrown = Some (drop_limit_error a), valid = i,
                           dropped = n_monte_carlo_drop + 1, total = elbo,
                           world = write_error_msg e (w\<lparr>gen := r\<rparr>)\<rparr>
                     else calc_ELBO_loop a variational i (n_monte_carlo_drop + 1) elbo
                            (write_error_msg e (w\<lparr>gen := r\<rparr>))))
      else \<lparr>thrown = None, valid = i, dropped = n_monte_carlo_drop, total = elbo, world = w\<rparr>)"
  by pat_completeness auto
termination
  by (relation "measure (\<lambda>(a, variational, i, n_monte_carlo_drop, elbo, w).
        nat (n_monte_carlo_elbo a - i) + nat (n_monte_carlo_elbo a - n_monte_carlo_drop))")
    auto

definition calc_ELBO :: "('q, 'r) advi \<Rightarrow> 'q \<Rightarrow> 'r io \<Rightarrow> (exn + double) \<times> 'r io" where
  "calc_ELBO a variational w =
     (let x = calc_ELBO_loop a variational 0 0 (Fin 0) w
      in case thrown x of
           Some e \<Rightarrow> (Inl e, world x)
         | None \<Rightarrow>
             (Inr (fadd (fdiv (total x) (static_cast_double (n_monte_carlo_elbo a)))
                        (q_entropy (family a) variational)),
              world x))"

text \<open>
  Modelled from the spec: the estimate as the specification speaks of it. The first
  \<open>n\<close> draws from the variational family, starting at generator state \<open>r\<close>; whether
  the log density at a draw yields a finite value; the log density values of the
  model at a list of draws that are accumulated, which are those that the model
  returns without throwing and that are finite; and the sum of a list of doubles in
  double arithmetic, from the first to the last.
\<close>

fun draw_list :: "('q, 'r) advi \<Rightarrow> 'q \<Rightarrow> 'r \<Rightarrow> nat \<Rightarrow> double list list" where
  "draw_list a variational r 0 = []"
| "draw_list a variational r (Suc n) =
     (case q_sample (family a) variational r of
        (zeta, r') \<Rightarrow> zeta # draw_list a variational r' n)"

fun finite_value :: "exn + double \<Rightarrow> bool" where
  "finite_value (Inr v) = isfinite v"
| "finite_value (Inl e) = False"

fun log_density_values :: "model \<Rightarrow> double list list \<Rightarrow> double list" where
  "log_density_values m [] = []"
| "log_density_values m (zeta # zetas) =
     (case model_log_prob m zeta of
        Inr v \<Rightarrow> if isfinite v then v # log_density_values m zetas
                 else log_density_values m zetas
      | Inl e \<Rightarrow> log_density_values m zetas)"

definition fsum :: "double list \<Rightarrow> double" where
  "fsum xs = foldl fadd (Fin 0) xs"

subsection \<open>\<^verbatim>\<open>calc_ELBO_grad\<close> and the adaptive step\<close>

definition calc_ELBO_grad ::
  "('q, 'r) advi \<Rightarrow> 'q \<Rightarrow> 'q \<Rightarrow> 'r io \<Rightarrow> (exn + 'q) \<times> 'r io" where
  "calc_ELBO_grad a variational elbo_grad w =
     (case check_size_match ''stan::variational::advi::calc_ELBO_grad''
             ''Dimension of elbo_grad'' (q_dimension (family a) elbo_grad)
             ''Dimension of variational q'' (q_dimension (family a) variational) of
        Inl e \<Rightarrow> (Inl e, w)
      | Inr _ \<Rightarrow>
     (case check_size_match ''stan::variational::advi::calc_ELBO_grad''
             ''Dimension of variational q'' (q_dimension (family a) variational)
             ''Dimension of variables in model'' (int (length (advi_cont_params a))) of
        Inl e \<Rightarrow> (Inl e, w)
      | Inr _ \<Rightarrow>
     (case q_calc_grad (family a) variational elbo_grad (model a) (advi_cont_params a)
             (n_monte_carlo_grad a) (gen w) of
        Inl e \<Rightarrow> (Inl e, w)
      | Inr (elbo_grad', r) \<Rightarrow> (Inr elbo_grad', w\<lparr>gen := r\<rparr>))))"

text \<open>
  The variables that \<^verbatim>\<open>tune\<close> and \<^verbatim>\<open>stochastic_gradient_ascent\<close> both keep across
  their iterations.
\<close>

record 'q ascent =
  variational :: 'q
  elbo_grad :: 'q
  params_prop :: 'q
  elbo :: double
  elbo_best :: double

definition learning_tau :: double where
  "learning_tau = Fin 1"

definition pre_factor :: double where
  "pre_factor = Fin (9 / 10)"

definition post_factor :: double where
  "post_factor = Fin (1 / 10)"

text \<open>
  Lines 198 to 211, and again lines 322 to 335: the gradient of the ELBO, the update
  of the learning rate parameters, and the stochastic gradient update, at iteration
  \<open>iter\<close> with step size parameter \<open>eta\<close>.
\<close>

definition gradient_step ::
  "('q, 'r) advi \<Rightarrow> double \<Rightarrow> int \<Rightarrow> ('q, 'm) ascent_scheme \<Rightarrow> 'r io
     \<Rightarrow> (exn + ('q, 'm) ascent_scheme) \<times> 'r io" where
  "gradient_step a eta iter st w =
     (case calc_ELBO_grad a (variational st) (elbo_grad st) w of
        (Inl e, w') \<Rightarrow> (Inl e, w')
      | (Inr grad, w') \<Rightarrow>
          (let fam = family a;
               prop = (if iter = 1
                       then q_add fam (params_prop st) (q_square fam grad)
                       else q_add fam (q_scale fam pre_factor (params_prop st))
                                      (q_scale fam post_factor (q_square fam grad)));
               eta_scaled = ddiv eta (dsqrt (static_cast_double iter))
           in (Inr (st\<lparr>elbo_grad := grad,
                        params_prop := prop,
                        variational :=
                          q_add fam (variational st)
                            (q_div fam (q_scale fam eta_scaled grad)
                                       (q_shift fam learning_tau (q_sqrt fam prop)))\<rparr>),
               w')))"

subsection \<open>\<^verbatim>\<open>tune\<close>\<close>

definition DBL_MAX :: real where
  "DBL_MAX = (2 - 1 / 2 ^ 52) * 2 ^ 1023"

definition DBL_MIN :: real where
  "DBL_MIN = 1 / 2 ^ 1022"

definition tuning_iterations :: int where
  "tuning_iterations = 50"

text \<open>
  The variables of \<^verbatim>\<open>tune\<close>; \<^verbatim>\<open>eta_best\<close> is \<open>None\<close> until it is assigned, and
  \<^verbatim>\<open>eta_sequence\<close> is the queue, its front first.
\<close>

record 'q tuning = "'q ascent" +
  eta :: double
  eta_sequence :: "double list"
  elbo_init :: double
  eta_best :: "double option"

text \<open>The loop of lines 197 to 212, from the iteration \<open>iter_tune\<close> on.\<close>

function tune_iterate ::
  "('q, 'r) advi \<Rightarrow> int \<Rightarrow> 'q tuning \<Rightarrow> 'r io \<Rightarrow> (exn + 'q tuning) \<times> 'r io" where
  "tune_iterate a iter_tune st w =
     (if iter_tune \<le> tuning_iterations
      then (case gradient_step a (eta st) iter_tune st w of
              (Inl e, w') \<Rightarrow> (Inl e, w')
            | (Inr st', w') \<Rightarrow> tune_iterate a (iter_tune + 1) st' w')
      else (Inr st, w))"
  by pat_completeness auto
termination
  by (relation "measure (\<lambda>(a, iter_tune, st, w). nat (tuning_iterations + 1 - iter_tune))") auto

text \<open>What \<^verbatim>\<open>return eta_best\<close> returns: the read of an unassigned variable is undefined.\<close>

definition return_eta_best :: "'q tuning \<Rightarrow> double outcome" where
  "return_eta_best st = (case eta_best st of None \<Rightarrow> Undefined | Some e \<Rightarrow> Returns e)"

text \<open>
  The loop of lines 186 to 252 and the return of line 253. The loop need not end, so
  the function counts the iterations it may still make: the result is \<open>None\<close> when they
  do not suffice. Otherwise it is how \<^verbatim>\<open>tune\<close> ends, with its variables, the generator
  and the streams at that point.
\<close>

fun tune_loop ::
  "nat \<Rightarrow> ('q, 'r) advi \<Rightarrow> 'q tuning \<Rightarrow> 'r io \<Rightarrow> (double outcome \<times> 'q tuning \<times> 'r io) option" where
  "tune_loop 0 a st w = None"
| "tune_loop (Suc n) a st w =
     (let fam = family a;
          w1 = put [Text ''ADVI TUNING: trying eta = '', Num (DoubleVal (eta st)),
                    Text '' for '', Num (IntVal tuning_iterations),
                    Text '' iterations... ''] w
      in case tune_iterate a 1 st w1 of
           (Inl e, w2) \<Rightarrow> Some (Throws e, st, w2)
         | (Inr st2, w2) \<Rightarrow>
       (case calc_ELBO a (variational st2) w2 of
           (Inl e, w3) \<Rightarrow> Some (Throws e, st2, w3)
         | (Inr elbo_now, w3) \<Rightarrow>
       (let st3 = st2\<lparr>elbo := elbo_now\<rparr>
        in if dless (elbo st3) (elbo_best st3) \<and> dgreater (elbo_best st3) (elbo_init st3)
           then (let st4 = st3\<lparr>variational := q_of_params fam (advi_cont_params a)\<rparr>
                 in Some (return_eta_best st4, st4,
                          put [Text ''SUCCESS. USING PREVIOUS ONE''] w3))
           else if eta_sequence st3 \<noteq> []
           then tune_loop n a
                  (st3\<lparr>elbo_best := elbo st3,
                        eta_best := Some (eta st3),
                        eta := hd (eta_sequence st3),
                        eta_sequence := tl (eta_sequence st3),
                        params_prop := q_of_dimension fam (num_params_r (model a)),
                        variational := q_of_params fam (advi_cont_params a)\<rparr>)
                  (put [Text ''FAILED.''] w3)
           else if dgreater (elbo st3) (elbo_init st3)
           then (let st4 = st3\<lparr>eta_best := Some (eta st3),
                                 params_prop := q_of_dimension fam (num_params_r (model a)),
                                 variational := q_of_params fam (advi_cont_params a)\<rparr>
                 in Some (return_eta_best st4, st4,
                          put [Text ''SUCCESS. USING CURRENT ONE''] w3))
           else if print_stream w3 \<noteq> None
           then Some (Returns (Fin 0), st3,
                      put [Text ''FAILED.'', Text ''ALL STEP SIZES FAILED.''] w3)
           else tune_loop n a
                  (st3\<lparr>params_prop := q_of_dimension fam (num_params_r (model a)),
                        variational := q_of_params fam (advi_cont_params a)\<rparr>)
                  w3)))"

text \<open>
  \<^verbatim>\<open>tune(variational)\<close>, lines 155 to 254, with a bound on the iterations of its outer
  loop.
\<close>

definition tune ::
  "nat \<Rightarrow> ('q, 'r) advi \<Rightarrow> 'q \<Rightarrow> 'r io \<Rightarrow> (double outcome \<times> 'q \<times> 'r io) option" where
  "tune fuel a variational0 w =
     (let fam = family a
      in case calc_ELBO a variational0 w of
           (Inl e, w1) \<Rightarrow> Some (Throws e, variational0, w1)
         | (Inr elbo0, w1) \<Rightarrow>
             (case tune_loop fuel a
                     \<lparr>variational = variational0,
                      elbo_grad = q_of_dimension fam (num_params_r (model a)),
                      params_prop = q_of_dimension fam (num_params_r (model a)),
                      elbo = Fin 0,
                      elbo_best = Fin (- DBL_MAX),
                      eta = Fin 1,
                      eta_sequence = [Fin (1 / 2), Fin (1 / 10), Fin (1 / 20), Fin (1 / 100)],
                      elbo_init = elbo0,
                      eta_best = None\<rparr> w1 of
                None \<Rightarrow> None
              | Some (res, st, w2) \<Rightarrow> Some (res, variational st, w2)))"

subsection \<open>\<^verbatim>\<open>stochastic_gradient_ascent\<close>\<close>

text \<open>
  A \<^verbatim>\<open>boost::circular_buffer\<close>: at most \<open>capacity\<close> elements, the oldest first;
  \<^verbatim>\<open>push_back\<close> on a full buffer overwrites the oldest.
\<close>

record circular_buffer =
  capacity :: nat
  contents :: "double list"

definition push_back :: "double \<Rightarrow> circular_buffer \<Rightarrow> circular_buffer" where
  "push_back x cb =
     (if capacity cb = 0 then cb
      else if length (contents cb) < capacity cb then cb\<lparr>contents := contents cb @ [x]\<rparr>
      else cb\<lparr>contents := tl (contents cb) @ [x]\<rparr>)"

text \<open>
  \<^verbatim>\<open>circ_buff_median_\<close>: the element that \<^verbatim>\<open>std::nth_element\<close> puts at position
  \<open>size / 2\<close> of a copy, which is the element at that position of the sorted copy. The
  behaviour is undefined (\<open>None\<close>) when the buffer is empty, where \<^verbatim>\<open>v[0]\<close> of an empty
  vector is read, and when the buffer holds a NaN, where \<^verbatim>\<open>operator<\<close> is no strict weak
  ordering.
\<close>

fun insert_sorted :: "double \<Rightarrow> double list \<Rightarrow> double list" where
  "insert_sorted x [] = [x]"
| "insert_sorted x (y # ys) = (if dless y x then y # insert_sorted x ys else x # y # ys)"

definition sorted_copy :: "double list \<Rightarrow> double list" where
  "sorted_copy xs = foldr insert_sorted xs []"

definition circ_buff_median :: "circular_buffer \<Rightarrow> double option" where
  "circ_buff_median cb =
     (let v = contents cb; n = length v div 2
      in if v = [] \<or> list_ex isnan v then None else Some (sorted_copy v ! n))"

text \<open>\<^verbatim>\<open>rel_difference_(prev, curr)\<close>, line 525.\<close>

definition rel_difference :: "double \<Rightarrow> double \<Rightarrow> double" where
  "rel_difference prev cur = ddiv (dabs (dsub cur prev)) (dabs prev)"

text \<open>
  The remainder \<^verbatim>\<open>a % b\<close> of two \<^verbatim>\<open>int\<close>s has the sign of \<open>a\<close>; it is undefined for
  \<open>b = 0\<close>.
\<close>

definition c_rem :: "int \<Rightarrow> int \<Rightarrow> int option" where
  "c_rem a b = (if b = 0 then None else Some (sgn a * (\<bar>a\<bar> mod \<bar>b\<bar>)))"

text \<open>Lines 298 to 300: the capacity of the buffer.\<close>

definition cb_size :: "int \<Rightarrow> int \<Rightarrow> int option" where
  "cb_size max_iterations n_eval =
     static_cast_int
       (dmax (ddiv (dmul (Fin (1 / 10)) (static_cast_double max_iterations))
                   (static_cast_double n_eval))
             (Fin 2))"

text \<open>The variables of \<^verbatim>\<open>stochastic_gradient_ascent\<close>.\<close>

record 'q climbing = "'q ascent" +
  elbo_prev :: double
  delta_elbo :: double
  delta_elbo_ave :: double
  delta_elbo_med :: double
  elbo_diff :: circular_buffer
  iter_main :: int
  do_more_iterations :: bool

text \<open>
  Lines 339 to 408, the convergence check. What goes to the diagnostic stream (the
  iteration, the time elapsed and the ELBO) is not modelled.
\<close>

definition convergence_check ::
  "('q, 'r) advi \<Rightarrow> double \<Rightarrow> 'q climbing \<Rightarrow> 'r io \<Rightarrow> 'q climbing outcome \<times> 'r io" where
  "convergence_check a tol_rel_obj st w =
     (let st1 = st\<lparr>elbo_prev := elbo st\<rparr>
      in case calc_ELBO a (variational st1) w of
           (Inl e, w1) \<Rightarrow> (Throws e, w1)
         | (Inr elbo_now, w1) \<Rightarrow>
       (let st2 = st1\<lparr>elbo := elbo_now\<rparr>;
            st3 = (if dgreater (elbo st2) (elbo_best st2) then st2\<lparr>elbo_best := elbo st2\<rparr>
                   else st2);
            st4 = st3\<lparr>delta_elbo := rel_difference (elbo st3) (elbo_prev st3)\<rparr>;
            st5 = st4\<lparr>elbo_diff := push_back (delta_elbo st4) (elbo_diff st4)\<rparr>;
            st6 = st5\<lparr>delta_elbo_ave :=
                        ddiv (foldl dadd (Fin 0) (contents (elbo_diff st5)))
                             (Fin (real (length (contents (elbo_diff st5)))))\<rparr>
        in case circ_buff_median (elbo_diff st6) of
             None \<Rightarrow> (Undefined, w1)
           | Some med \<Rightarrow>
         (let st7 = st6\<lparr>delta_elbo_med := med\<rparr>;
              w2 = put [Num (IntVal (iter_main st7)), Num (DoubleVal (elbo st7)),
                        Num (DoubleVal (delta_elbo_ave st7)),
                        Num (DoubleVal (delta_elbo_med st7))] w1;
              mean_converged = dless (delta_elbo_ave st7) tol_rel_obj;
              w3 = (if mean_converged then put [Text ''   MEAN ELBO CONVERGED''] w2 else w2);
              st8 = (if mean_converged then st7\<lparr>do_more_iterations := False\<rparr> else st7);
              median_converged = dless (delta_elbo_med st8) tol_rel_obj;
              w4 = (if median_converged then put [Text ''   MEDIAN ELBO CONVERGED''] w3 else w3);
              st9 = (if median_converged then st8\<lparr>do_more_iterations := False\<rparr> else st8);
              w5 = (if dgreater (delta_elbo_med st9) (Fin (1 / 2)) \<or>
                       dgreater (delta_elbo_ave st9) (Fin (1 / 2))
                    then put [Text ''   MAY BE DIVERGING... INSPECT ELBO''] w4 else w4);
              w6 = (if do_more_iterations st9 = False \<and>
                       dgreater (dabs (dsub (elbo st9) (elbo_best st9))) (Fin (1 / 2))
                    then put [Text ''Informational Message: The ELBO at a previous iteration is larger than the ELBO upon convergence!'',
                              Text ''This means that the variational approximation has not converged to the global optima.''] w5
                    else w5)
          in (Returns st9, w6))))"

text \<open>
  The loop of lines 321 to 425, with a bound on its iterations (\<open>None\<close> when they do
  not suffice). The increment of \<^verbatim>\<open>iter_main\<close> is undefined at the greatest \<^verbatim>\<open>int\<close>.
\<close>

fun ascent_loop ::
  "nat \<Rightarrow> ('q, 'r) advi \<Rightarrow> double \<Rightarrow> double \<Rightarrow> int \<Rightarrow> 'q climbing \<Rightarrow> 'r io
     \<Rightarrow> ('q climbing outcome \<times> 'r io) option" where
  "ascent_loop 0 a eta0 tol_rel_obj max_iterations st w = None"
| "ascent_loop (Suc n) a eta0 tol_rel_obj max_iterations st w =
     (case gradient_step a eta0 (iter_main st) st w of
        (Inl e, w1) \<Rightarrow> Some (Throws e, w1)
      | (Inr st1, w1) \<Rightarrow>
     (case c_rem (iter_main st1) (eval_elbo a) of
        None \<Rightarrow> Some (Undefined, w1)
      | Some r \<Rightarrow>
     (case (if r = 0 then convergence_check a tol_rel_obj st1 w1 else (Returns st1, w1)) of
        (Throws e, w2) \<Rightarrow> Some (Throws e, w2)
      | (Undefined, w2) \<Rightarrow> Some (Undefined, w2)
      | (Returns st2, w2) \<Rightarrow>
          (let reached = (iter_main st2 = max_iterations);
               w3 = (if reached
                     then put [Text ''Informational Message: The maximum number of iterations is reached! The algorithm has not converged.'',
                               Text ''Values from this variational approximation are not guaranteed to be meaningful.''] w2
                     else w2);
               st3 = (if reached then st2\<lparr>do_more_iterations := False\<rparr> else st2)
           in if iter_main st3 = INT_MAX then Some (Undefined, w3)
              else (let st4 = st3\<lparr>iter_main := iter_main st3 + 1\<rparr>
                    in if do_more_iterations st4
                       then ascent_loop n a eta0 tol_rel_obj max_iterations st4 w3
                       else Some (Returns st4, w3))))))"

text \<open>
  \<^verbatim>\<open>stochastic_gradient_ascent(variational, eta, tol_rel_obj, max_iterations)\<close>, with
  a bound on the iterations of its loop; it returns its variables as they are at the
  end.
\<close>

definition stochastic_gradient_ascent ::
  "nat \<Rightarrow> ('q, 'r) advi \<Rightarrow> 'q \<Rightarrow> double \<Rightarrow> double \<Rightarrow> int \<Rightarrow> 'r io
     \<Rightarrow> ('q climbing outcome \<times> 'r io) option" where
  "stochastic_gradient_ascent fuel a variational0 eta0 tol_rel_obj max_iterations w =
     (case check_nonnegative ''stan::variational::advi.stochastic_gradient_ascent''
             ''Eta stepsize'' eta0 of
        Inl e \<Rightarrow> Some (Throws e, w)
      | Inr _ \<Rightarrow>
     (case check_positive_double ''stan::variational::advi.stochastic_gradient_ascent''
             ''Relative objective function tolerance'' tol_rel_obj of
        Inl e \<Rightarrow> Some (Throws e, w)
      | Inr _ \<Rightarrow>
     (case check_positive ''stan::variational::advi.stochastic_gradient_ascent''
             ''Maximum iterations'' max_iterations of
        Inl e \<Rightarrow> Some (Throws e, w)
      | Inr _ \<Rightarrow>
     (case cb_size max_iterations (eval_elbo a) of
        None \<Rightarrow> Some (Undefined, w)
      | Some n \<Rightarrow>
          ascent_loop fuel a eta0 tol_rel_obj max_iterations
            \<lparr>variational = variational0,
             elbo_grad = q_of_dimension (family a) (num_params_r (model a)),
             params_prop = q_of_dimension (family a) (num_params_r (model a)),
             elbo = Fin 0,
             elbo_best = Fin (- DBL_MAX),
             elbo_prev = Fin DBL_MIN,
             delta_elbo = Fin DBL_MAX,
             delta_elbo_ave = Fin DBL_MAX,
             delta_elbo_med = Fin DBL_MAX,
             elbo_diff = \<lparr>capacity = nat n, contents = []\<rparr>,
             iter_main = 1,
             do_more_iterations = True\<rparr>
            (put [Text ''  iter'', Text ''       ELBO'', Text ''   delta_ELBO_mean'',
                  Text ''   delta_ELBO_med'', Text ''   notes ''] w)))))"

section \<open>Example inputs\<close>

subsection \<open>A sampler with a unit metric and the leapfrog integrator\<close>

text \<open>
  Modelled from the spec: the unit metric over a model with potential \<open>f\<close> and gradient
  \<open>f'\<close>. Its kinetic energy is \<open>p \<cdot> p / 2\<close>; the momentum it draws is read off the
  generator state, here the list of the numbers still to be drawn.
\<close>

definition unit_e_metric ::
  "(double list \<Rightarrow> double) \<Rightarrow> (double list \<Rightarrow> double list) \<Rightarrow> double list hamiltonian" where
  "unit_e_metric f f' =
     \<lparr>draw_p = (\<lambda>pt r. (take (length (q pt)) r, drop (length (q pt)) r)),
      tau = (\<lambda>pt. dmul (Fin (1 / 2)) (euclidean_dot (p pt) (p pt))),
      phi = f,
      dphi_dq = f'\<rparr>"

text \<open>\<open>ys + a xs\<close>, coefficient by coefficient.\<close>

definition axpy :: "double \<Rightarrow> double list \<Rightarrow> double list \<Rightarrow> double list" where
  "axpy a xs ys = map2 (\<lambda>x y. dadd y (dmul a x)) xs ys"

text \<open>
  Modelled from the spec: one leapfrog step of size \<open>\<epsilon>\<close> for the unit metric (the
  integrator is not among the sources): half kick, drift, new potential and gradient,
  half kick.
\<close>

definition expl_leapfrog :: "ps_point \<Rightarrow> 'r hamiltonian \<Rightarrow> double \<Rightarrow> ps_point" where
  "expl_leapfrog pt ham eps =
     (let half = dneg (dmul (Fin (1 / 2)) eps);
          p1 = axpy half (g pt) (p pt);
          q1 = axpy eps p1 (q pt);
          pt1 = hamiltonian_init ham (pt\<lparr>q := q1, p := p1\<rparr>)
      in pt1\<lparr>p := axpy half (g pt1) (p pt1)\<rparr>)"

text \<open>
  A one-dimensional model whose potential is \<open>v0\<close> at the origin and \<open>v1\<close> everywhere
  else, with a zero gradient, sampled without jitter.
\<close>

definition cliff_env :: "double \<Rightarrow> double \<Rightarrow> double list hmc_env" where
  "cliff_env v0 v1 =
     \<lparr>hamiltonian = unit_e_metric (\<lambda>x. if x = [Fin 0] then v0 else v1) (\<lambda>x. [Fin 0]),
      evolve = expl_leapfrog,
      jitter = (\<lambda>e r. (e, r)),
      rand_uniform = (\<lambda>r. case r of [] \<Rightarrow> (Fin 0, []) | u # us \<Rightarrow> (u, us))\<rparr>"

text \<open>
  A sampler at the origin with step size 1 and one step per trajectory; the generator
  will draw 1 (the momentum) and then 1/2 (the uniform number).
\<close>

definition hmc0 :: "double list static_hmc" where
  "hmc0 = \<lparr>z = \<lparr>q = [Fin 0], p = [Fin 0], V = Fin 0, g = [Fin 0]\<rparr>,
           nom_epsilon = Fin 1, epsilon = Fin 1, T = Fin 1, L = 1,
           rng = [Fin 1, Fin (1 / 2)]\<rparr>"

definition sample0 :: sample where
  "sample0 = \<lparr>cont_params = [Fin 0], log_prob = Fin 0, accept_stat = Fin 1\<rparr>"


text \<open>The doubles nearest to 0.3 and to 0.1.\<close>

definition three_tenths :: real where
  "three_tenths = 5404319552844595 / 2 ^ 54"

definition one_tenth :: real where
  "one_tenth = 3602879701896397 / 2 ^ 55"


subsection \<open>A linear log density and a location family\<close>

text \<open>
  A model of one parameter with log density \<open>c \<zeta>\<close>, and a model whose log density is
  a NaN everywhere.
\<close>

definition linear_model :: "real \<Rightarrow> model" where
  "linear_model c =
     \<lparr>num_params_r = 1,
      model_log_prob = (\<lambda>zeta. case zeta of
                                 [] \<Rightarrow> Inl (Exception ''no parameter'')
                               | x # _ \<Rightarrow> Inr (dmul (Fin c) x))\<rparr>"

definition nan_model :: model where
  "nan_model = \<lparr>num_params_r = 1, model_log_prob = (\<lambda>zeta. Inr NaN)\<rparr>"

text \<open>
  A family of one parameter, the location \<open>\<mu>\<close>, with entropy 0. A draw is \<open>\<mu>\<close> plus
  the next number of the generator state (the list of the numbers still to be drawn),
  and \<open>\<mu>\<close> itself once the list is empty; the gradient of the ELBO is \<open>c\<close>.
\<close>

definition location_family :: "real \<Rightarrow> (double, double list) family" where
  "location_family c =
     \<lparr>q_of_dimension = (\<lambda>n. Fin 0),
      q_of_params = (\<lambda>params. case params of [] \<Rightarrow> Fin 0 | x # _ \<Rightarrow> x),
      q_dimension = (\<lambda>mu. 1),
      q_sample = (\<lambda>mu r. case r of [] \<Rightarrow> ([mu], []) | x # xs \<Rightarrow> ([dadd mu x], xs)),
      q_entropy = (\<lambda>mu. Fin 0),
      q_calc_grad = (\<lambda>mu grad m params n r. Inr (Fin c, r)),
      q_square = (\<lambda>x. dmul x x),
      q_sqrt = dsqrt,
      q_add = dadd,
      q_scale = dmul,
      q_div = ddiv,
      q_shift = dadd\<rparr>"

definition linear_advi :: "real \<Rightarrow> int \<Rightarrow> int \<Rightarrow> (double, double list) advi" where
  "linear_advi c n_elbo n_eval =
     \<lparr>model = linear_model c, family = location_family c, advi_cont_params = [Fin 0],
      n_monte_carlo_grad = 1, n_monte_carlo_elbo = n_elbo, eval_elbo = n_eval,
      n_posterior_samples = 1\<rparr>"

definition nan_advi :: "(double, double list) advi" where
  "nan_advi =
     \<lparr>model = nan_model, family = location_family 0, advi_cont_params = [Fin 0],
      n_monte_carlo_grad = 1, n_monte_carlo_elbo = 2, eval_elbo = 1,
      n_posterior_samples = 1\<rparr>"

text \<open>The constant log density 0, estimated from one draw.\<close>

definition flat_advi :: "(double, double list) advi" where
  "flat_advi = linear_advi 0 1 1"

text \<open>
  The variables of \<^verbatim>\<open>tune\<close> on the constant log density, where every gradient and every
  ELBO is 0, and what \<^verbatim>\<open>tune\<close> writes when it tries a step size.
\<close>

definition flat_tuning :: "real \<Rightarrow> real list \<Rightarrow> real \<Rightarrow> double option \<Rightarrow> double tuning" where
  "flat_tuning e es best e_best =
     \<lparr>variational = Fin 0, elbo_grad = Fin 0, params_prop = Fin 0, elbo = Fin 0,
      elbo_best = Fin best, eta = Fin e, eta_sequence = map Fin es, elbo_init = Fin 0,
      eta_best = e_best\<rparr>"

definition trying :: "real \<Rightarrow> token list" where
  "trying x = [Text ''ADVI TUNING: trying eta = '', Num (DoubleVal (Fin x)), Text '' for '',
               Num (IntVal tuning_iterations), Text '' iterations... '']"

text \<open>
  The variables of \<^verbatim>\<open>stochastic_gradient_ascent\<close> at location 0 with a buffer of
  capacity 2, and the generator that will draw the given numbers, with no print stream.
\<close>

definition run_state ::
  "real \<Rightarrow> real \<Rightarrow> real \<Rightarrow> real \<Rightarrow> real \<Rightarrow> real \<Rightarrow> real \<Rightarrow> real \<Rightarrow> double list \<Rightarrow> int \<Rightarrow> bool
     \<Rightarrow> double climbing" where
  "run_state gr pp e eb ep de da dm buf it going =
     \<lparr>variational = Fin 0, elbo_grad = Fin gr, params_prop = Fin pp, elbo = Fin e,
      elbo_best = Fin eb, elbo_prev = Fin ep, delta_elbo = Fin de, delta_elbo_ave = Fin da,
      delta_elbo_med = Fin dm, elbo_diff = \<lparr>capacity = 2, contents = buf\<rparr>,
      iter_main = it, do_more_iterations = going\<rparr>"

definition draws :: "double list \<Rightarrow> double list io" where
  "draws xs = \<lparr>gen = xs, print_stream = None\<rparr>"

section \<open>Properties of the rounding\<close>

lemma exponent_eq:
  assumes "2 powi k \<le> \<bar>x\<bar>" and "\<bar>x\<bar> < 2 powi (k + 1)"
  shows "exponent x = max k (- 1022)"
proof -
  have pos: "0 < \<bar>x\<bar>"
    using assms(1) zero_less_power_int [of "2::real" k] by linarith
  have "(2::real) powr real_of_int k = 2 powi k"
    by (simp add: powr_real_of_int')
  moreover have "(2::real) powr (real_of_int k + 1) = 2 powi (k + 1)"
    using powr_real_of_int' [of 2 "k + 1"] by simp
  ultimately have "\<lfloor>log 2 \<bar>x\<bar>\<rfloor> = k"
    using assms floor_log_eq_powr_iff [of "\<bar>x\<bar>" 2 k] pos by simp
  then show ?thesis
    by (simp add: exponent_def)
qed

text \<open>The rounding of a real whose exponent is known.\<close>

lemma fl_eval:
  assumes "2 powi k \<le> \<bar>x\<bar>" and "\<bar>x\<bar> < 2 powi (k + 1)"
  shows "fl x =
     (let u = 2 powi (max k (- 1022) - 52); r = of_int (round_to_even (x / u)) * u
      in if 2 ^ 1024 \<le> \<bar>r\<bar> then signed_inf (x < 0) else Fin r)"
proof -
  have "x \<noteq> 0"
    using assms(1) zero_less_power_int [of "2::real" k] by linarith
  then show ?thesis
    by (simp add: fl_def exponent_eq [OF assms])
qed

lemma round_to_even_nonneg: "0 \<le> y \<Longrightarrow> 0 \<le> round_to_even y"
  by (simp add: round_to_even_def Let_def)

text \<open>Rounding keeps the sign.\<close>

lemma fl_nonneg:
  assumes "0 \<le> x" and "fl x = Fin r"
  shows "0 \<le> r"
proof (cases "x = 0")
  case True
  then show ?thesis
    using assms(2) by (simp add: fl_def)
next
  case False
  define u :: real where "u = 2 powi (exponent x - 52)"
  have u: "0 < u"
    by (simp add: u_def)
  have "0 \<le> x / u"
    using assms(1) u by simp
  then have "0 \<le> round_to_even (x / u)"
    by (rule round_to_even_nonneg)
  then have "0 \<le> real_of_int (round_to_even (x / u)) * u"
    using u by simp
  moreover have "r = real_of_int (round_to_even (x / u)) * u"
    using assms(2) False by (simp add: fl_def Let_def u_def signed_inf_def split: if_splits)
  ultimately show ?thesis
    by simp
qed

lemma fl_zero: "fl 0 = Fin 0"
  by (simp add: fl_def)

section \<open>Properties of the static HMC sampler\<close>

subsection \<open>Setters\<close>

lemma not_dgreater_zero: "dle e (Fin 0) \<Longrightarrow> \<not> dgreater e (Fin 0)"
  by (cases e) (auto simp: dgreater_def)

text \<open>
  C10. A setter called with a non-positive argument changes nothing and raises nothing:
  it returns the sampler as it was, so the nominal step size, the integration time and
  the step count are what they were before the call.
\<close>

theorem setters_nonpositive_noop:
  "(dle e (Fin 0) \<or> dle t (Fin 0) \<longrightarrow> set_nominal_stepsize_and_T e t s = Some s) \<and>
   (dle e (Fin 0) \<or> l \<le> 0 \<longrightarrow> set_nominal_stepsize_and_L e l s = Some s) \<and>
   (dle t (Fin 0) \<longrightarrow> set_T t s = Some s) \<and>
   (dle e (Fin 0) \<longrightarrow> set_nominal_stepsize e s = Some s)"
  by (auto simp: set_nominal_stepsize_and_T_def set_nominal_stepsize_and_L_def set_T_def
      set_nominal_stepsize_def dest: not_dgreater_zero)

theorem setters_nonpositive_noop_witness:
  "dle (Fin (- 1)) (Fin 0) \<and> (0::int) \<le> 0 \<and>
   set_nominal_stepsize_and_T (Fin (- 1)) (Fin 2) hmc0 = Some hmc0 \<and>
   set_nominal_stepsize_and_L (Fin 2) 0 hmc0 = Some hmc0 \<and>
   set_T (Fin (- 1)) hmc0 = Some hmc0 \<and>
   set_nominal_stepsize (Fin (- 1)) hmc0 = Some hmc0"
  using setters_nonpositive_noop [of "Fin (- 1)" "Fin 2" hmc0 0]
    setters_nonpositive_noop [of "Fin 2" "Fin (- 1)" hmc0 0]
  by simp

subsection \<open>The number of leapfrog steps\<close>

lemma trunc_to_zero_nonneg: "0 \<le> x \<Longrightarrow> trunc_to_zero x = \<lfloor>x\<rfloor>"
  by (simp add: trunc_to_zero_def)

lemma fdiv_positive:
  assumes "0 < e" and "0 < t" and "fdiv (Fin t) (Fin e) = Fin r"
  shows "0 \<le> r"
proof -
  have "fl (t / e) = Fin r"
    using assms by (simp add: fdiv_def)
  moreover have "0 \<le> t / e"
    using assms(1,2) by simp
  ultimately show ?thesis
    by (rule fl_nonneg [rotated])
qed

lemma cast_quotient:
  assumes "0 < e" and "0 < t" and "fdiv (Fin t) (Fin e) = Fin r" and "\<lfloor>r\<rfloor> \<le> INT_MAX"
  shows "static_cast_int (fdiv (Fin t) (Fin e)) = Some \<lfloor>r\<rfloor>"
proof -
  have nonneg: "0 \<le> r"
    using assms(1-3) by (rule fdiv_positive)
  then have "0 \<le> \<lfloor>r\<rfloor>"
    by simp
  then have "is_int \<lfloor>r\<rfloor>"
    using assms(4) by (simp add: is_int_def INT_MIN_def)
  then show ?thesis
    using trunc_to_zero_nonneg [OF nonneg] by (simp add: assms(3))
qed

lemma update_L_floor:
  assumes "0 < e" and "0 < t" and "fdiv (Fin t) (Fin e) = Fin r" and "\<lfloor>r\<rfloor> \<le> INT_MAX"
    and "T s = Fin t" and "nom_epsilon s = Fin e"
  shows "map_option get_L (update_L s) = Some (max 1 \<lfloor>r\<rfloor>)"
  using cast_quotient [OF assms(1-4)] assms(5,6)
  by (simp add: update_L_def get_L_def max_def)

text \<open>
  C7, amended. Let \<open>e > 0\<close> be a nominal step size and \<open>t > 0\<close> an integration time, and
  let \<open>r\<close> be the quotient \<open>t / e\<close> as the double division computes it, that is rounded
  to the nearest double. When \<open>\<lfloor>r\<rfloor>\<close> is an \<^verbatim>\<open>int\<close> (at most \<open>2\<^sup>3\<^sup>1 - 1\<close>), the step count
  after \<^verbatim>\<open>set_nominal_stepsize_and_T(e, t)\<close> is \<open>max(1, \<lfloor>r\<rfloor>)\<close>; so it is after
  \<^verbatim>\<open>set_T(t)\<close> on a sampler with nominal step size \<open>e\<close>, and after
  \<^verbatim>\<open>set_nominal_stepsize(e)\<close> on a sampler with integration time \<open>t\<close>.
\<close>

theorem get_L_floor:
  assumes "0 < e" and "0 < t" and "fdiv (Fin t) (Fin e) = Fin r" and "\<lfloor>r\<rfloor> \<le> INT_MAX"
  shows "map_option get_L (set_nominal_stepsize_and_T (Fin e) (Fin t) s)
           = Some (max 1 \<lfloor>r\<rfloor>) \<and>
         (nom_epsilon s = Fin e \<longrightarrow>
            map_option get_L (set_T (Fin t) s) = Some (max 1 \<lfloor>r\<rfloor>)) \<and>
         (T s = Fin t \<longrightarrow>
            map_option get_L (set_nominal_stepsize (Fin e) s) = Some (max 1 \<lfloor>r\<rfloor>))"
  using assms
  by (simp add: set_nominal_stepsize_and_T_def set_T_def set_nominal_stepsize_def
      dgreater_def update_L_floor)

lemma quotient_three_tenths:
  "fdiv (Fin 1) (Fin three_tenths) = Fin (7505999378950827 / 2 ^ 51)"
  using fl_eval [of 1 "1 / three_tenths"]
  by (simp add: fdiv_def three_tenths_def round_to_even_def Let_def)

lemma quotient_one_tenth: "fdiv (Fin 1) (Fin one_tenth) = Fin 10"
  using fl_eval [of 3 "1 / one_tenth"]
  by (simp add: fdiv_def one_tenth_def round_to_even_def Let_def)

lemma quotient_half: "fdiv (Fin 1) (Fin 2) = Fin (1 / 2)"
  using fl_eval [of "- 1" "1 / 2"]
  by (simp add: fdiv_def round_to_even_def Let_def)

lemma quotient_five: "fdiv (Fin 5) (Fin 1) = Fin 5"
  using fl_eval [of 2 5]
  by (simp add: fdiv_def round_to_even_def Let_def)

lemma quotient_overflow: "fdiv (Fin 2147483648) (Fin 1) = Fin 2147483648"
  using fl_eval [of 31 2147483648]
  by (simp add: fdiv_def round_to_even_def Let_def)

text \<open>
  The two scenarios of the specification, with the doubles nearest to 0.3 and 2:
  \<open>L = 3\<close> and \<open>L = 1\<close>.
\<close>

theorem get_L_floor_witness:
  "(0::real) < three_tenths \<and> (0::real) < 1 \<and>
   fdiv (Fin 1) (Fin three_tenths) = Fin (7505999378950827 / 2 ^ 51) \<and>
   \<lfloor>7505999378950827 / 2 ^ 51 :: real\<rfloor> \<le> INT_MAX \<and>
   nom_epsilon hmc0 = Fin 1 \<and> T hmc0 = Fin 1 \<and>
   map_option get_L (set_nominal_stepsize_and_T (Fin three_tenths) (Fin 1) hmc0) = Some 3 \<and>
   map_option get_L (set_nominal_stepsize_and_T (Fin 2) (Fin 1) hmc0) = Some 1 \<and>
   map_option get_L (set_T (Fin 5) hmc0) = Some 5 \<and>
   map_option get_L (set_nominal_stepsize (Fin three_tenths) hmc0) = Some 3"
  using get_L_floor [of three_tenths 1 "7505999378950827 / 2 ^ 51" hmc0]
    get_L_floor [of 2 1 "1 / 2" hmc0] get_L_floor [of 1 5 5 hmc0]
    quotient_three_tenths quotient_half quotient_five
  by (simp add: INT_MAX_def hmc0_def three_tenths_def)

text \<open>
  The claim as stated fails where the quotient is rounded, and where it is no
  \<^verbatim>\<open>int\<close>. With \<open>t = 1\<close> and the double nearest to 0.1, which is greater than 0.1, the
  exact quotient is below 10 and \<open>\<lfloor>t / e\<rfloor>\<close> is 9, but the double division returns 10
  and so does \<^verbatim>\<open>get_L()\<close>. With \<open>e = 1\<close> and \<open>t = 2\<^sup>3\<^sup>1\<close> the conversion is undefined, and
  no \<^verbatim>\<open>int\<close> is \<open>\<lfloor>t / e\<rfloor>\<close>.
\<close>

theorem get_L_floor_counterexample:
  "map_option get_L (set_nominal_stepsize_and_T (Fin one_tenth) (Fin 1) hmc0) = Some 10 \<and>
   max 1 \<lfloor>(1::real) / one_tenth\<rfloor> = 9 \<and>
   map_option get_L (set_nominal_stepsize_and_T (Fin 1) (Fin 2147483648) hmc0)
     \<noteq> Some (max 1 \<lfloor>(2147483648::real) / 1\<rfloor>) \<and>
   \<not> is_int (max 1 \<lfloor>(2147483648::real) / 1\<rfloor>)"
  using quotient_one_tenth quotient_overflow
  by (simp add: set_nominal_stepsize_and_T_def dgreater_def update_L_def trunc_to_zero_def
      is_int_def INT_MAX_def INT_MIN_def get_L_def one_tenth_def)

subsection \<open>One transition\<close>

lemma transition_accept_stat:
  "accept_stat (fst (transition env s i)) =
     (if dgreater (accept_prob env s i) (Fin 1) then Fin 1 else accept_prob env s i)"
  by (simp add: transition_def accept_prob_def energy_H0_def energy_h_def Let_def)

lemma transition_z:
  "z (snd (transition env s i)) =
     (if rejects env s i then z (prepare env s i) else integrate env (prepare env s i))"
  by (simp add: transition_def rejects_def accept_prob_def energy_H0_def energy_h_def
      uniform_draw_def metropolis_def Let_def split: prod.split)

lemma transition_cont_params:
  "cont_params (fst (transition env s i)) = q (z (snd (transition env s i)))"
  by (simp add: transition_def Let_def)

lemma prepare_q: "q (z (prepare env s i)) = cont_params i"
  by (simp add: prepare_def seed_def sample_stepsize_def hamiltonian_sample_p_def
      hamiltonian_init_def Let_def split: prod.split)

lemma clamp_dexp:
  "\<not> isnan x \<Longrightarrow>
   dle (Fin 0) (if dgreater (dexp x) (Fin 1) then Fin 1 else dexp x) \<and>
   dle (if dgreater (dexp x) (Fin 1) then Fin 1 else dexp x) (Fin 1)"
  by (cases x) (auto simp: dgreater_def)

lemma finite_H0_difference: "isfinite H0 \<Longrightarrow> \<not> isnan (dsub H0 (nan_to_inf h))"
  by (cases H0; cases h) (simp_all add: dsub_def nan_to_inf_def)

lemmas cliff_defs = cliff_env_def hmc0_def sample0_def unit_e_metric_def expl_leapfrog_def
  axpy_def prepare_def integrate_def sample_stepsize_def seed_def hamiltonian_sample_p_def
  hamiltonian_init_def hamiltonian_H_def hamiltonian_V_def energy_H0_def energy_h_def
  accept_prob_def uniform_draw_def rejects_def nan_to_inf_def dsub_def dgreater_def
  signed_inf_def

lemmas transition_defs = transition_def metropolis_def Let_def

text \<open>
  C4, amended. The acceptance probability of the returned sample is in \<open>[0, 1]\<close> for
  every transition in which the difference \<open>H0 - h\<close> that the code forms (with a NaN
  \<open>h\<close> already replaced by \<open>+\<infinity>\<close>) is not a NaN, whatever the initial point, the
  generator and the energy \<open>h\<close> at the end of the trajectory are.
\<close>

theorem accept_stat_in_unit_interval:
  assumes "\<not> isnan (dsub (energy_H0 env s i) (nan_to_inf (energy_h env s i)))"
  shows "dle (Fin 0) (accept_stat (fst (transition env s i))) \<and>
         dle (accept_stat (fst (transition env s i))) (Fin 1)"
  unfolding transition_accept_stat accept_prob_def by (rule clamp_dexp [OF assms])

theorem accept_stat_in_unit_interval_witness:
  "\<not> isnan (dsub (energy_H0 (cliff_env (Fin 0) NaN) hmc0 sample0)
               (nan_to_inf (energy_h (cliff_env (Fin 0) NaN) hmc0 sample0))) \<and>
   dle (Fin 0) (accept_stat (fst (transition (cliff_env (Fin 0) NaN) hmc0 sample0))) \<and>
   dle (accept_stat (fst (transition (cliff_env (Fin 0) NaN) hmc0 sample0))) (Fin 1)"
proof -
  have h: "\<not> isnan (dsub (energy_H0 (cliff_env (Fin 0) NaN) hmc0 sample0)
              (nan_to_inf (energy_h (cliff_env (Fin 0) NaN) hmc0 sample0)))"
    by (simp add: cliff_defs)
  show ?thesis
    using h accept_stat_in_unit_interval [OF h] by simp
qed

text \<open>
  The difference is not a NaN whenever the energy at the start of the trajectory is
  finite.
\<close>

lemma accept_stat_finite_H0:
  assumes "isfinite (energy_H0 env s i)"
  shows "dle (Fin 0) (accept_stat (fst (transition env s i))) \<and>
         dle (accept_stat (fst (transition env s i))) (Fin 1)"
  unfolding transition_accept_stat accept_prob_def
  by (rule clamp_dexp [OF finite_H0_difference [OF assms]])

text \<open>
  The claim as stated fails for a model whose energy is \<open>+\<infinity>\<close> everywhere: \<open>H0 - h\<close> is
  \<open>\<infinity> - \<infinity>\<close>, and the acceptance probability of the returned sample is a NaN.
\<close>

theorem accept_stat_counterexample:
  "\<not> (dle (Fin 0) (accept_stat (fst (transition (cliff_env PInf PInf) hmc0 sample0))) \<and>
      dle (accept_stat (fst (transition (cliff_env PInf PInf) hmc0 sample0))) (Fin 1))"
  by (simp add: cliff_defs transition_defs)

text \<open>
  C5. Whenever the test of line 50 rejects, the point of the sampler is the snapshot
  taken at the start of the trajectory, and the continuous parameters of the returned
  sample are those of the initial sample.
\<close>

theorem reject_restores:
  assumes "rejects env s i"
  shows "z (snd (transition env s i)) = z (prepare env s i) \<and>
         cont_params (fst (transition env s i)) = cont_params i"
  using assms by (simp add: transition_cont_params transition_z prepare_q)

text \<open>
  The trajectory of the witness fails at its only step, where the model returns \<open>+\<infinity>\<close>.
\<close>

theorem reject_restores_witness:
  "energy_h (cliff_env (Fin 0) PInf) hmc0 sample0 = PInf \<and>
   rejects (cliff_env (Fin 0) PInf) hmc0 sample0 \<and>
   cont_params (fst (transition (cliff_env (Fin 0) PInf) hmc0 sample0)) = [Fin 0] \<and>
   cont_params sample0 = [Fin 0]"
proof -
  have r: "rejects (cliff_env (Fin 0) PInf) hmc0 sample0"
    by (simp add: cliff_defs)
  have e: "energy_h (cliff_env (Fin 0) PInf) hmc0 sample0 = PInf"
    by (simp add: cliff_defs)
  show ?thesis
    using r e reject_restores [OF r] by (simp add: sample0_def)
qed

lemma dexp_minus_inf:
  assumes "dless H0 PInf" and "isnan h \<or> h = PInf"
  shows "dexp (dsub H0 (nan_to_inf h)) = Fin 0"
  using assms by (cases H0; cases h) (simp_all add: dsub_def nan_to_inf_def)

text \<open>
  C6, amended. An energy \<open>h\<close> after integration that is a NaN or \<open>+\<infinity>\<close> is treated as
  a rejection when the energy \<open>H0\<close> at the start is below \<open>+\<infinity>\<close>: a NaN is replaced by
  \<open>+\<infinity>\<close>, the acceptance probability \<open>exp(H0 - h)\<close> is 0, and the state before the
  trajectory is kept whenever the uniform draw is greater than 0.
\<close>

theorem nan_or_inf_energy_rejected:
  assumes "isnan (energy_h env s i) \<or> energy_h env s i = PInf"
    and "dless (energy_H0 env s i) PInf"
  shows "nan_to_inf (energy_h env s i) = PInf \<and>
         accept_prob env s i = Fin 0 \<and>
         accept_stat (fst (transition env s i)) = Fin 0 \<and>
         (dgreater (uniform_draw env s i) (Fin 0) \<longrightarrow>
            z (snd (transition env s i)) = z (prepare env s i) \<and>
            cont_params (fst (transition env s i)) = cont_params i)"
proof -
  have a: "accept_prob env s i = Fin 0"
    unfolding accept_prob_def by (rule dexp_minus_inf [OF assms(2,1)])
  have n: "nan_to_inf (energy_h env s i) = PInf"
    using assms(1) by (auto simp: nan_to_inf_def)
  have "rejects env s i" if "dgreater (uniform_draw env s i) (Fin 0)"
    using that a by (simp add: rejects_def)
  then show ?thesis
    using a n by (simp add: transition_accept_stat transition_cont_params transition_z
        prepare_q dgreater_def)
qed

theorem nan_or_inf_energy_rejected_witness:
  "isnan (energy_h (cliff_env (Fin 0) NaN) hmc0 sample0) \<and>
   dless (energy_H0 (cliff_env (Fin 0) NaN) hmc0 sample0) PInf \<and>
   dgreater (uniform_draw (cliff_env (Fin 0) NaN) hmc0 sample0) (Fin 0) \<and>
   accept_stat (fst (transition (cliff_env (Fin 0) NaN) hmc0 sample0)) = Fin 0 \<and>
   cont_params (fst (transition (cliff_env (Fin 0) NaN) hmc0 sample0)) = cont_params sample0"
proof -
  have h: "isnan (energy_h (cliff_env (Fin 0) NaN) hmc0 sample0) \<or>
           energy_h (cliff_env (Fin 0) NaN) hmc0 sample0 = PInf"
    by (simp add: cliff_defs)
  have H0: "dless (energy_H0 (cliff_env (Fin 0) NaN) hmc0 sample0) PInf"
    by (simp add: cliff_defs)
  have u: "dgreater (uniform_draw (cliff_env (Fin 0) NaN) hmc0 sample0) (Fin 0)"
    by (simp add: cliff_defs)
  have "isnan (energy_h (cliff_env (Fin 0) NaN) hmc0 sample0)"
    by (simp add: cliff_defs)
  then show ?thesis
    using H0 u nan_or_inf_energy_rejected [OF h H0] by simp
qed

text \<open>
  The claim as stated fails for \<open>h = -\<infinity>\<close>: the energy is not replaced, the acceptance
  probability is 1, and the sampler moves to the end of the trajectory.
\<close>

theorem minus_inf_energy_counterexample:
  "energy_h (cliff_env (Fin 0) NInf) hmc0 sample0 = NInf \<and>
   nan_to_inf (energy_h (cliff_env (Fin 0) NInf) hmc0 sample0) \<noteq> PInf \<and>
   accept_stat (fst (transition (cliff_env (Fin 0) NInf) hmc0 sample0)) = Fin 1 \<and>
   cont_params (fst (transition (cliff_env (Fin 0) NInf) hmc0 sample0)) = [Fin 1] \<and>
   cont_params sample0 = [Fin 0]"
  by (simp add: cliff_defs transition_defs)

section \<open>Properties of NUTS with a unit metric\<close>






lemma fl_small:
  "fl 1 = Fin 1" "fl 2 = Fin 2" "fl 3 = Fin 3" "fl (- 1) = Fin (- 1)"
  using fl_eval [of 0 1] fl_eval [of 1 2] fl_eval [of 1 3] fl_eval [of 0 "- 1"]
  by (simp_all add: round_to_even_def Let_def)






section \<open>Properties of ADVI\<close>

declare calc_ELBO_loop.simps [simp del]
declare tune_iterate.simps [simp del]
declare tune_loop.simps [simp del]
declare ascent_loop.simps [simp del]

lemmas advi_defs = flat_advi_def linear_advi_def linear_model_def location_family_def
  gradient_step_def calc_ELBO_grad_def check_size_match_def calc_ELBO_def energy_def
  check_finite_def write_error_msg_def learning_tau_def pre_factor_def post_factor_def
  static_cast_double_def Let_def

lemma gen_put: "gen (put ts w) = gen w"
  by (simp add: put_def split: option.split)

lemma gen_write_error_msg: "gen (write_error_msg e w) = gen w"
  by (simp add: write_error_msg_def gen_put)

lemma loop_all_dropped:
  assumes never: "\<And>zeta. \<exists>e. energy a zeta = Inl e"
    and "i < n_monte_carlo_elbo a" and "d < n_monte_carlo_elbo a"
  shows "thrown (calc_ELBO_loop a Q i d s w) = Some (drop_limit_error a) \<and>
         valid (calc_ELBO_loop a Q i d s w) = i \<and>
         dropped (calc_ELBO_loop a Q i d s w) = n_monte_carlo_elbo a \<and>
         total (calc_ELBO_loop a Q i d s w) = s"
  using assms(3)
proof (induction "nat (n_monte_carlo_elbo a - d)" arbitrary: d w)
  case 0
  then show ?case by simp
next
  case (Suc k)
  obtain zeta r where qs: "q_sample (family a) Q (gen w) = (zeta, r)"
    by force
  obtain e where en: "energy a zeta = Inl e"
    using never by blast
  show ?case
  proof (cases "n_monte_carlo_elbo a \<le> d + 1")
    case True
    with Suc.prems have "d + 1 = n_monte_carlo_elbo a"
      by simp
    then show ?thesis
      by (subst (1 2 3 4) calc_ELBO_loop.simps) (simp add: assms(2) qs en)
  next
    case False
    then have "k = nat (n_monte_carlo_elbo a - (d + 1))" and "d + 1 < n_monte_carlo_elbo a"
      using Suc.hyps(2) by simp_all
    then have ih: "thrown (calc_ELBO_loop a Q i (d + 1) s w') = Some (drop_limit_error a) \<and>
         valid (calc_ELBO_loop a Q i (d + 1) s w') = i \<and>
         dropped (calc_ELBO_loop a Q i (d + 1) s w') = n_monte_carlo_elbo a \<and>
         total (calc_ELBO_loop a Q i (d + 1) s w') = s" for w'
      by (rule Suc.hyps(1))
    have "calc_ELBO_loop a Q i d s w =
          calc_ELBO_loop a Q i (d + 1) s (write_error_msg e (w\<lparr>gen := r\<rparr>))"
      by (subst calc_ELBO_loop.simps) (simp add: assms(2) qs en False)
    then show ?thesis
      using ih by simp
  qed
qed

lemma energy_accumulated:
  assumes "energy a zeta = Inr v"
  shows "log_density_values (model a) (zeta # zetas) = v # log_density_values (model a) zetas"
  using assms
  by (cases "model_log_prob (model a) zeta")
    (auto simp: energy_def check_finite_def split: if_splits)

lemma energy_ignored:
  assumes "energy a zeta = Inl e"
  shows "log_density_values (model a) (zeta # zetas) = log_density_values (model a) zetas"
  using assms
  by (cases "model_log_prob (model a) zeta")
    (auto simp: energy_def check_finite_def split: if_splits)

lemma loop_accumulates:
  "\<exists>n. int n = (valid (calc_ELBO_loop a Q i d s w) - i)
                + (dropped (calc_ELBO_loop a Q i d s w) - d) \<and>
        int (length (log_density_values (model a) (draw_list a Q (gen w) n)))
          = valid (calc_ELBO_loop a Q i d s w) - i \<and>
        total (calc_ELBO_loop a Q i d s w)
          = foldl fadd s (log_density_values (model a) (draw_list a Q (gen w) n)) \<and>
        (thrown (calc_ELBO_loop a Q i d s w) = None \<longrightarrow> i \<le> n_monte_carlo_elbo a \<longrightarrow>
           valid (calc_ELBO_loop a Q i d s w) = n_monte_carlo_elbo a)"
proof (induction "nat (n_monte_carlo_elbo a - i) + nat (n_monte_carlo_elbo a - d)"
    arbitrary: i d s w rule: less_induct)
  case less
  show ?case
  proof (cases "i < n_monte_carlo_elbo a")
    case False
    then have stop: "calc_ELBO_loop a Q i d s w =
        \<lparr>thrown = None, valid = i, dropped = d, total = s, world = w\<rparr>"
      by (subst calc_ELBO_loop.simps) simp
    show ?thesis
      unfolding stop using False by (intro exI [of _ 0]) simp
  next
    case True
    obtain zeta r where qs: "q_sample (family a) Q (gen w) = (zeta, r)"
      by force
    show ?thesis
    proof (cases "energy a zeta")
      case (Inr v)
      have step: "calc_ELBO_loop a Q i d s w =
          calc_ELBO_loop a Q (i + 1) d (fadd s v) (w\<lparr>gen := r\<rparr>)"
        by (subst calc_ELBO_loop.simps) (simp add: True qs Inr)
      have "nat (n_monte_carlo_elbo a - (i + 1)) + nat (n_monte_carlo_elbo a - d)
            < nat (n_monte_carlo_elbo a - i) + nat (n_monte_carlo_elbo a - d)"
        using True by simp
      from less [OF this, of "fadd s v" "w\<lparr>gen := r\<rparr>"] obtain n where
        n: "int n = (valid (calc_ELBO_loop a Q i d s w) - (i + 1))
                + (dropped (calc_ELBO_loop a Q i d s w) - d)"
          "int (length (log_density_values (model a) (draw_list a Q r n)))
             = valid (calc_ELBO_loop a Q i d s w) - (i + 1)"
          "total (calc_ELBO_loop a Q i d s w)
             = foldl fadd (fadd s v) (log_density_values (model a) (draw_list a Q r n))"
          "thrown (calc_ELBO_loop a Q i d s w) = None \<longrightarrow> i + 1 \<le> n_monte_carlo_elbo a \<longrightarrow>
             valid (calc_ELBO_loop a Q i d s w) = n_monte_carlo_elbo a"
        unfolding step by auto
      show ?thesis
        using n True by (intro exI [of _ "Suc n"]) (simp add: qs energy_accumulated [OF Inr] del: log_density_values.simps(2))
    next
      case (Inl e)
      show ?thesis
      proof (cases "n_monte_carlo_elbo a \<le> d + 1")
        case limit: True
        have stop: "calc_ELBO_loop a Q i d s w =
            \<lparr>thrown = Some (drop_limit_error a), valid = i, dropped = d + 1, total = s,
             world = write_error_msg e (w\<lparr>gen := r\<rparr>)\<rparr>"
          by (subst calc_ELBO_loop.simps) (simp add: True qs Inl limit)
        show ?thesis
          unfolding stop by (intro exI [of _ "Suc 0"]) (simp add: qs energy_ignored [OF Inl] del: log_density_values.simps(2))
      next
        case False
        have step: "calc_ELBO_loop a Q i d s w =
            calc_ELBO_loop a Q i (d + 1) s (write_error_msg e (w\<lparr>gen := r\<rparr>))"
          by (subst calc_ELBO_loop.simps) (simp add: True qs Inl False)
        have "nat (n_monte_carlo_elbo a - i) + nat (n_monte_carlo_elbo a - (d + 1))
            < nat (n_monte_carlo_elbo a - i) + nat (n_monte_carlo_elbo a - d)"
          using False by simp
        from less [OF this, of s "write_error_msg e (w\<lparr>gen := r\<rparr>)"] obtain n where
          n: "int n = (valid (calc_ELBO_loop a Q i d s w) - i)
                  + (dropped (calc_ELBO_loop a Q i d s w) - (d + 1))"
            "int (length (log_density_values (model a) (draw_list a Q r n)))
               = valid (calc_ELBO_loop a Q i d s w) - i"
            "total (calc_ELBO_loop a Q i d s w)
               = foldl fadd s (log_density_values (model a) (draw_list a Q r n))"
            "thrown (calc_ELBO_loop a Q i d s w) = None \<longrightarrow> i \<le> n_monte_carlo_elbo a \<longrightarrow>
               valid (calc_ELBO_loop a Q i d s w) = n_monte_carlo_elbo a"
          unfolding step by (auto simp: gen_write_error_msg)
        show ?thesis
          using n by (intro exI [of _ "Suc n"]) (simp add: qs energy_ignored [OF Inl] del: log_density_values.simps(2))
      qed
    qed
  qed
qed

subsection \<open>The ELBO estimate\<close>

lemma new_advi_fields:
  assumes "new_advi m fam params n_grad n_elbo n_eval n_post = Inr a"
  shows "model a = m" and "family a = fam" and "n_monte_carlo_elbo a = n_elbo" and "0 < n_elbo"
  using assms by (auto simp: new_advi_def check_positive_def split: if_splits)

lemma energy_never_finite:
  assumes "\<not> finite_value (model_log_prob (model a) zeta)"
  shows "\<exists>e. energy a zeta = Inl e"
  using assms by (cases "model_log_prob (model a) zeta") (simp_all add: energy_def check_finite_def)

text \<open>
  C3, amended. For an \<^verbatim>\<open>advi\<close> object that its constructor has built from the model
  \<open>m\<close>: when no evaluation of the log density of \<open>m\<close> yields a finite value,
  \<^verbatim>\<open>calc_ELBO\<close> throws the domain error that names the draw limit
  \<^verbatim>\<open>n_monte_carlo_elbo_\<close>, after that many dropped evaluations and no accumulated one;
  and when \<^verbatim>\<open>calc_ELBO\<close> returns, there are \<open>n\<close> draws among which as many as the draw
  limit have a finite log density under \<open>m\<close>, and the result is what double arithmetic
  gives for the sum of these log density values divided by the draw limit, plus the
  entropy of the variational family: the values are added to 0 in the order of their
  draws, and every addition and the division are rounded to the nearest double.
\<close>

theorem calc_ELBO_result:
  assumes "new_advi m fam params n_grad n_elbo n_eval n_post = Inr a"
  shows "((\<forall>zeta. \<not> finite_value (model_log_prob m zeta)) \<longrightarrow>
            fst (calc_ELBO a Q w) =
              Inl (Domain_error ''stan::variational::advi::calc_ELBO''
                     ''The number of dropped evaluations'' (IntVal n_elbo)
                     ''has reached its maximum amount (''
                     ''). Your model may be either severely ill-conditioned or misspecified.'') \<and>
            valid (calc_ELBO_loop a Q 0 0 (Fin 0) w) = 0 \<and>
            dropped (calc_ELBO_loop a Q 0 0 (Fin 0) w) = n_elbo) \<and>
         (\<forall>v. fst (calc_ELBO a Q w) = Inr v \<longrightarrow>
            (\<exists>n. int (length (log_density_values m (draw_list a Q (gen w) n))) = n_elbo \<and>
                 v = fadd (fdiv (fsum (log_density_values m (draw_list a Q (gen w) n)))
                                (static_cast_double n_elbo))
                          (q_entropy fam Q)))"
proof (intro conjI impI allI)
  note f = new_advi_fields [OF assms]
  {
    assume "\<forall>zeta. \<not> finite_value (model_log_prob m zeta)"
    then have never: "\<exists>e. energy a zeta = Inl e" for zeta
      using energy_never_finite [of a zeta] f(1) by simp
    have pos: "0 < n_monte_carlo_elbo a"
      using f(3,4) by simp
    note d = loop_all_dropped [of a 0 0 Q "Fin 0" w, OF never pos pos]
    show "fst (calc_ELBO a Q w) =
              Inl (Domain_error ''stan::variational::advi::calc_ELBO''
                     ''The number of dropped evaluations'' (IntVal n_elbo)
                     ''has reached its maximum amount (''
                     ''). Your model may be either severely ill-conditioned or misspecified.'')"
      using d f(3) by (simp add: calc_ELBO_def Let_def drop_limit_error_def)
    show "valid (calc_ELBO_loop a Q 0 0 (Fin 0) w) = 0"
      using d by simp
    show "dropped (calc_ELBO_loop a Q 0 0 (Fin 0) w) = n_elbo"
      using d f(3) by simp
  }
  fix v
  assume r: "fst (calc_ELBO a Q w) = Inr v"
  then have t: "thrown (calc_ELBO_loop a Q 0 0 (Fin 0) w) = None"
    by (simp add: calc_ELBO_def Let_def split: option.splits)
  obtain n where
    "int n = (valid (calc_ELBO_loop a Q 0 0 (Fin 0) w) - 0)
                + (dropped (calc_ELBO_loop a Q 0 0 (Fin 0) w) - 0) \<and>
     int (length (log_density_values (model a) (draw_list a Q (gen w) n)))
          = valid (calc_ELBO_loop a Q 0 0 (Fin 0) w) - 0 \<and>
     total (calc_ELBO_loop a Q 0 0 (Fin 0) w)
          = foldl fadd (Fin 0) (log_density_values (model a) (draw_list a Q (gen w) n)) \<and>
     (thrown (calc_ELBO_loop a Q 0 0 (Fin 0) w) = None \<longrightarrow> 0 \<le> n_monte_carlo_elbo a \<longrightarrow>
           valid (calc_ELBO_loop a Q 0 0 (Fin 0) w) = n_monte_carlo_elbo a)"
    using loop_accumulates [of a Q 0 0 "Fin 0" w] by (elim exE)
  then have n: "int (length (log_density_values m (draw_list a Q (gen w) n))) = valid (calc_ELBO_loop a Q 0 0 (Fin 0) w)"
       "total (calc_ELBO_loop a Q 0 0 (Fin 0) w) = foldl fadd (Fin 0) (log_density_values m (draw_list a Q (gen w) n))"
       "thrown (calc_ELBO_loop a Q 0 0 (Fin 0) w) = None \<longrightarrow> 0 \<le> n_monte_carlo_elbo a \<longrightarrow>
           valid (calc_ELBO_loop a Q 0 0 (Fin 0) w) = n_monte_carlo_elbo a"
    using f(1) by simp_all
  have "valid (calc_ELBO_loop a Q 0 0 (Fin 0) w) = n_elbo"
    using n(3) t f(3,4) by simp
  moreover have "v = fadd (fdiv (total (calc_ELBO_loop a Q 0 0 (Fin 0) w)) (static_cast_double n_elbo))
                      (q_entropy fam Q)"
    using r t f(2,3) by (simp add: calc_ELBO_def Let_def)
  ultimately show "\<exists>n. int (length (log_density_values m (draw_list a Q (gen w) n))) = n_elbo \<and>
                 v = fadd (fdiv (fsum (log_density_values m (draw_list a Q (gen w) n)))
                                (static_cast_double n_elbo))
                          (q_entropy fam Q)"
    using n(1,2) by (intro exI [of _ n]) (simp add: fsum_def)
qed

lemma fl_powers: "fl 4 = Fin 4" "fl 6 = Fin 6" "fl 8 = Fin 8"
  using fl_eval [of 2 4] fl_eval [of 2 6] fl_eval [of 3 8]
  by (simp_all add: round_to_even_def Let_def)

text \<open>
  The witness: the log density that is a NaN everywhere; and the log density \<open>2 \<zeta>\<close>
  at the draws 1, \<open>\<infinity>\<close> and 3, where the values 2 and 6 are accumulated.
\<close>

theorem calc_ELBO_result_witness:
  "new_advi nan_model (location_family 0) [Fin 0] 1 2 1 1 = Inr nan_advi \<and>
   (\<forall>zeta. \<not> finite_value (model_log_prob nan_model zeta)) \<and>
   fst (calc_ELBO nan_advi (Fin 0) \<lparr>gen = [], print_stream = None\<rparr>) = Inl (drop_limit_error nan_advi) \<and>
   dropped (calc_ELBO_loop nan_advi (Fin 0) 0 0 (Fin 0) \<lparr>gen = [], print_stream = None\<rparr>) = 2 \<and>
   new_advi (linear_model 2) (location_family 2) [Fin 0] 1 2 1 1 = Inr (linear_advi 2 2 1) \<and>
   fst (calc_ELBO (linear_advi 2 2 1) (Fin 0) \<lparr>gen = [Fin 1, PInf, Fin 3], print_stream = None\<rparr>)
     = Inr (Fin 4) \<and>
   log_density_values (linear_model 2) [[Fin 1], [PInf], [Fin 3]] = [Fin 2, Fin 6] \<and>
   (\<exists>n. int (length (log_density_values (linear_model 2)
                       (draw_list (linear_advi 2 2 1) (Fin 0) [Fin 1, PInf, Fin 3] n))) = 2 \<and>
        Fin 4 = fadd (fdiv (fsum (log_density_values (linear_model 2)
                                    (draw_list (linear_advi 2 2 1) (Fin 0) [Fin 1, PInf, Fin 3] n)))
                        (static_cast_double 2))
                  (q_entropy (location_family 2) (Fin 0)))"
proof -
  have c1: "new_advi nan_model (location_family 0) [Fin 0] 1 2 1 1 = Inr nan_advi"
    by (simp add: new_advi_def check_positive_def nan_advi_def)
  have n1: "\<forall>zeta. \<not> finite_value (model_log_prob nan_model zeta)"
    by (simp add: nan_model_def)
  have c2: "new_advi (linear_model 2) (location_family 2) [Fin 0] 1 2 1 1 = Inr (linear_advi 2 2 1)"
    by (simp add: new_advi_def check_positive_def linear_advi_def)
  have r2: "fst (calc_ELBO (linear_advi 2 2 1) (Fin 0) \<lparr>gen = [Fin 1, PInf, Fin 3], print_stream = None\<rparr>)
     = Inr (Fin 4)"
    by (simp add: advi_defs calc_ELBO_loop.simps put_def signed_inf_def fadd_def fdiv_def
        fl_small fl_powers)
  have v2: "log_density_values (linear_model 2) [[Fin 1], [PInf], [Fin 3]] = [Fin 2, Fin 6]"
    by (simp add: linear_model_def signed_inf_def)
  show ?thesis
    using c1 n1 c2 r2 v2
      calc_ELBO_result [OF c1, of "Fin 0" "\<lparr>gen = [], print_stream = None\<rparr>"]
      calc_ELBO_result [OF c2, of "Fin 0" "\<lparr>gen = [Fin 1, PInf, Fin 3], print_stream = None\<rparr>"]
    by (simp add: drop_limit_error_def nan_advi_def)
qed

lemma fl_large:
  "fl 10000000000000000 = Fin 10000000000000000"
  "fl (- 10000000000000000) = Fin (- 10000000000000000)"
  "fl 10000000000000001 = Fin 10000000000000000"
  using fl_eval [of 53 10000000000000000] fl_eval [of 53 "- 10000000000000000"]
    fl_eval [of 53 10000000000000001]
  by (simp_all add: round_to_even_def Let_def)

text \<open>
  The claim as stated fails where an addition is rounded. With the log density
  \<open>\<zeta>\<close>, three draws to accumulate and the draws \<open>10\<^sup>1\<^sup>6\<close>, 1 and \<open>- 10\<^sup>1\<^sup>6\<close>, every log
  density value is finite and the sum of the three values divided by 3, plus the
  entropy 0, is \<open>1 / 3\<close>; \<^verbatim>\<open>calc_ELBO\<close> returns 0, because \<open>10\<^sup>1\<^sup>6 + 1\<close> is rounded to
  \<open>10\<^sup>1\<^sup>6\<close>.
\<close>

theorem calc_ELBO_rounding_counterexample:
  "new_advi (linear_model 1) (location_family 1) [Fin 0] 1 3 1 1 = Inr (linear_advi 1 3 1) \<and>
   fst (calc_ELBO (linear_advi 1 3 1) (Fin 0)
          \<lparr>gen = [Fin 10000000000000000, Fin 1, Fin (- 10000000000000000)],
           print_stream = None\<rparr>) = Inr (Fin 0) \<and>
   log_density_values (linear_model 1)
       (draw_list (linear_advi 1 3 1) (Fin 0)
          [Fin 10000000000000000, Fin 1, Fin (- 10000000000000000)] 3)
     = [Fin 10000000000000000, Fin 1, Fin (- 10000000000000000)] \<and>
   dadd (ddiv (foldl dadd (Fin 0) [Fin 10000000000000000, Fin 1, Fin (- 10000000000000000)])
              (static_cast_double 3))
        (q_entropy (location_family 1) (Fin 0)) = Fin (1 / 3)"
proof (intro conjI)
  show "new_advi (linear_model 1) (location_family 1) [Fin 0] 1 3 1 1 = Inr (linear_advi 1 3 1)"
    by (simp add: new_advi_def check_positive_def linear_advi_def)
  show "fst (calc_ELBO (linear_advi 1 3 1) (Fin 0)
          \<lparr>gen = [Fin 10000000000000000, Fin 1, Fin (- 10000000000000000)],
           print_stream = None\<rparr>) = Inr (Fin 0)"
    by (simp add: advi_defs calc_ELBO_loop.simps put_def fadd_def fdiv_def fl_large fl_zero)
  show "log_density_values (linear_model 1)
       (draw_list (linear_advi 1 3 1) (Fin 0)
          [Fin 10000000000000000, Fin 1, Fin (- 10000000000000000)] 3)
     = [Fin 10000000000000000, Fin 1, Fin (- 10000000000000000)]"
    by (simp add: linear_advi_def linear_model_def location_family_def numeral_3_eq_3)
  show "dadd (ddiv (foldl dadd (Fin 0) [Fin 10000000000000000, Fin 1, Fin (- 10000000000000000)])
              (static_cast_double 3))
        (q_entropy (location_family 1) (Fin 0)) = Fin (1 / 3)"
    by (simp add: static_cast_double_def location_family_def)
qed

subsection \<open>The capacity of the circular buffer\<close>

text \<open>
  C8, amended. For \<open>max_iterations > 0\<close> (an \<^verbatim>\<open>int\<close>) and \<open>eval_elbo > 0\<close> the capacity
  of the buffer is \<open>max(\<lfloor>0.1 max_iterations / eval_elbo\<rfloor>, 2)\<close>: the quotient is rounded
  down, not up.
\<close>

theorem cb_size_floor:
  assumes "0 < max_iterations" and "max_iterations \<le> INT_MAX" and "0 < n_eval"
  shows "cb_size max_iterations n_eval
           = Some (max \<lfloor>1 / 10 * real_of_int max_iterations / real_of_int n_eval\<rfloor> 2)"
proof -
  define x where "x = 1 / 10 * real_of_int max_iterations / real_of_int n_eval"
  have x0: "0 \<le> x"
    using assms by (simp add: x_def)
  have "x \<le> real_of_int max_iterations"
  proof -
    have "1 \<le> real_of_int n_eval" using assms(3) by simp
    then have "real_of_int max_iterations / real_of_int n_eval \<le> real_of_int max_iterations"
      using assms(1) by (simp add: divide_le_eq mult_le_cancel_left1)
    then show ?thesis using assms(1) by (simp add: x_def)
  qed
  then have "\<lfloor>x\<rfloor> \<le> max_iterations"
    by (simp add: floor_le_iff)
  then have up: "\<lfloor>x\<rfloor> \<le> INT_MAX"
    using assms(2) by simp
  have m: "dmax (Fin x) (Fin 2) = Fin (max x 2)"
    by (simp add: dmax_def max_def)
  have fl: "\<lfloor>max x 2\<rfloor> = max \<lfloor>x\<rfloor> 2"
    by (simp add: max_def le_floor_iff floor_le_iff) linarith
  have t: "trunc_to_zero (max x 2) = max \<lfloor>x\<rfloor> 2"
    using fl by (simp add: trunc_to_zero_nonneg)
  have "is_int (max \<lfloor>x\<rfloor> 2)"
    using up x0 by (simp add: is_int_def INT_MIN_def INT_MAX_def max_def)
  then have "static_cast_int (Fin (max x 2)) = Some (max \<lfloor>x\<rfloor> 2)"
    using t by simp
  moreover have "ddiv (dmul (Fin (1 / 10)) (static_cast_double max_iterations)) (static_cast_double n_eval) = Fin x"
    using assms(3) by (simp add: static_cast_double_def x_def)
  ultimately show ?thesis
    unfolding cb_size_def m x_def [symmetric] by (simp add: m)
qed

theorem cb_size_floor_witness:
  "(0::int) < 1000 \<and> 1000 \<le> INT_MAX \<and> (0::int) < 30 \<and> cb_size 1000 30 = Some 3 \<and> cb_size 10000 100 = Some 10 \<and> cb_size 10 100 = Some 2"
  using cb_size_floor [of 1000 30] cb_size_floor [of 10000 100] cb_size_floor [of 10 100]
  by (simp add: INT_MAX_def)

text \<open>
  The claim as stated fails for \<open>max_iterations = 1000\<close> and \<open>eval_elbo = 30\<close>: the
  capacity is 3, and the quotient rounded up is 4.
\<close>

theorem cb_size_ceiling_counterexample:
  "cb_size 1000 30 = Some 3 \<and>
   max \<lceil>1 / 10 * real_of_int 1000 / real_of_int 30\<rceil> 2 = 4"
  by (simp add: cb_size_def static_cast_double_def dmax_def trunc_to_zero_def is_int_def
      INT_MIN_def INT_MAX_def)

subsection \<open>Tuning\<close>

text \<open>
  The branch of lines 240 to 246, for any model and family: when the sequence is
  exhausted and the ELBO measured last neither exceeds the initial one nor ends the
  tuning at line 219, \<^verbatim>\<open>tune\<close> returns 0 if there is a print stream, and goes round
  its loop once more if there is none.
\<close>

lemma exhausted_branch:
  assumes "tune_iterate a 1 st
             (put [Text ''ADVI TUNING: trying eta = '', Num (DoubleVal (eta st)), Text '' for '',
                   Num (IntVal tuning_iterations), Text '' iterations... ''] w) = (Inr st2, w2)"
    and "calc_ELBO a (variational st2) w2 = (Inr v, w3)"
    and "eta_sequence st2 = []"
    and "\<not> (dless v (elbo_best st2) \<and> dgreater (elbo_best st2) (elbo_init st2))"
    and "\<not> dgreater v (elbo_init st2)"
  shows "tune_loop (Suc n) a st w =
           (if print_stream w3 \<noteq> None
            then Some (Returns (Fin 0), st2\<lparr>elbo := v\<rparr>,
                       put [Text ''FAILED.'', Text ''ALL STEP SIZES FAILED.''] w3)
            else tune_loop n a
                   (st2\<lparr>elbo := v,
                         params_prop := q_of_dimension (family a) (num_params_r (model a)),
                         variational := q_of_params (family a) (advi_cont_params a)\<rparr>)
                   w3)"
  using assms by (auto simp: tune_loop.simps(2) Let_def)

text \<open>The rounds of \<^verbatim>\<open>tune\<close> on the constant log density 0.\<close>

lemma flat_elbo:
  assumes "gen w = []"
  shows "calc_ELBO flat_advi (Fin 0) w = (Inr (Fin 0), w)"
proof -
  have "w\<lparr>gen := []\<rparr> = w"
    using assms [symmetric] by simp
  then show ?thesis
    using assms by (simp add: advi_defs calc_ELBO_loop.simps fadd_def fdiv_def fl_zero)
qed

lemma flat_gradient_step:
  assumes "0 < k"
  shows "gradient_step flat_advi (Fin x) k (flat_tuning e es best e_best) w
           = (Inr (flat_tuning e es best e_best), w)"
  using assms by (simp add: advi_defs flat_tuning_def)

lemma flat_tune_iterate:
  assumes "0 < k"
  shows "tune_iterate flat_advi k (flat_tuning x es best e_best) w
           = (Inr (flat_tuning x es best e_best), w)"
  using assms
proof (induction "nat (tuning_iterations + 1 - k)" arbitrary: k)
  case 0
  then show ?case
    by (subst tune_iterate.simps) simp
next
  case (Suc n)
  from Suc(2) have "n = nat (tuning_iterations + 1 - (k + 1))"
    by simp
  moreover have "0 < k + 1"
    using Suc(3) by simp
  ultimately have ih: "tune_iterate flat_advi (k + 1) (flat_tuning x es best e_best) w
           = (Inr (flat_tuning x es best e_best), w)"
    by (rule Suc(1))
  have eta: "eta (flat_tuning x es best e_best) = Fin x"
    by (simp add: flat_tuning_def)
  show ?case
    by (subst tune_iterate.simps) (simp add: eta flat_gradient_step [OF Suc(3)] ih)
qed

lemma flat_fields:
  "variational (flat_tuning x es b e_best) = Fin 0"
  "eta (flat_tuning x es b e_best) = Fin x"
  "(flat_tuning x es b e_best)\<lparr>elbo := Fin 0\<rparr> = flat_tuning x es b e_best"
  "eta_sequence (flat_tuning x es b e_best) = [] \<longleftrightarrow> es = []"
  "b \<le> 0 \<Longrightarrow> \<not> (dless (elbo (flat_tuning x es b e_best)) (elbo_best (flat_tuning x es b e_best)) \<and>
     dgreater (elbo_best (flat_tuning x es b e_best)) (elbo_init (flat_tuning x es b e_best)))"
  "\<not> dgreater (elbo (flat_tuning x es b e_best)) (elbo_init (flat_tuning x es b e_best))"
  by (simp_all add: flat_tuning_def dgreater_def)

lemma flat_round_next:
  assumes "b \<le> 0" and "gen w = []"
  shows "tune_loop (Suc n) flat_advi (flat_tuning x (e # es) b e_best) w
     = tune_loop n flat_advi (flat_tuning e es 0 (Some (Fin x)))
         (put [Text ''FAILED.''] (put (trying x) w))"
proof -
  have nxt: "(flat_tuning x (e # es) b e_best)
        \<lparr>elbo_best := elbo (flat_tuning x (e # es) b e_best),
           eta_best := Some (Fin x),
           eta := hd (eta_sequence (flat_tuning x (e # es) b e_best)),
           eta_sequence := tl (eta_sequence (flat_tuning x (e # es) b e_best)),
           params_prop := q_of_dimension (family flat_advi) (num_params_r (model flat_advi)),
           variational := q_of_params (family flat_advi) (advi_cont_params flat_advi)\<rparr>
        = flat_tuning e es 0 (Some (Fin x))"
    by (simp add: flat_tuning_def advi_defs)
  show ?thesis
    by (simp add: tune_loop.simps(2) Let_def flat_tune_iterate flat_elbo gen_put flat_fields
        assms nxt trying_def)
qed

lemma flat_round_stuck:
  assumes "b \<le> 0" and "gen w = []" and "print_stream w = None"
  shows "tune_loop (Suc n) flat_advi (flat_tuning x [] b e_best) w
     = tune_loop n flat_advi (flat_tuning x [] b e_best) w"
proof -
  have nxt: "(flat_tuning x [] b e_best)
        \<lparr>params_prop := q_of_dimension (family flat_advi) (num_params_r (model flat_advi)),
           variational := q_of_params (family flat_advi) (advi_cont_params flat_advi)\<rparr>
        = flat_tuning x [] b e_best"
    by (simp add: flat_tuning_def advi_defs)
  have p: "put ts w = w" for ts
    using assms(3) by (simp add: put_def)
  show ?thesis
    by (simp add: tune_loop.simps(2) Let_def flat_tune_iterate flat_elbo flat_fields assms nxt p)
qed

lemma flat_round_fail:
  assumes "b \<le> 0" and "gen w = []" and "print_stream w \<noteq> None"
  shows "tune_loop (Suc n) flat_advi (flat_tuning x [] b e_best) w
     = Some (Returns (Fin 0), flat_tuning x [] b e_best,
             put [Text ''FAILED.'', Text ''ALL STEP SIZES FAILED.''] (put (trying x) w))"
proof -
  have p: "print_stream (put ts w) \<noteq> None" for ts
    using assms(3) by (auto simp: put_def split: option.split)
  show ?thesis
    by (simp add: tune_loop.simps(2) Let_def flat_tune_iterate flat_elbo gen_put flat_fields
        assms p trying_def)
qed

lemma flat_stuck:
  assumes "b \<le> 0" and "gen w = []" and "print_stream w = None"
  shows "tune_loop n flat_advi (flat_tuning x [] b e_best) w = None"
  by (induction n) (simp_all add: tune_loop.simps(1) flat_round_stuck [OF assms])

lemma flat_never_returns:
  assumes "b \<le> 0" and "gen w = []" and "print_stream w = None"
  shows "tune_loop n flat_advi (flat_tuning x es b e_best) w = None"
  using assms(1)
proof (induction es arbitrary: n x b e_best)
  case Nil
  then show ?case
    by (rule flat_stuck [OF _ assms(2,3)])
next
  case (Cons e es)
  have p: "put ts w = w" for ts
    using assms(3) by (simp add: put_def)
  show ?case
  proof (cases n)
    case 0
    then show ?thesis by (simp add: tune_loop.simps(1))
  next
    case (Suc m)
    then show ?thesis
      using Cons.IH [of 0 m e "Some (Fin x)"]
      by (simp add: flat_round_next [OF Cons.prems assms(2)] p)
  qed
qed

lemma DBL_MAX_pos: "0 < DBL_MAX"
  by (simp add: DBL_MAX_def)

text \<open>
  C1, on the code. On the constant log density every step size leaves the ELBO at its
  initial value 0, so the sequence is exhausted with an ELBO that does not exceed the
  initial one. Without a print stream \<^verbatim>\<open>tune\<close> does not return, however many
  iterations its loop is given: the \<^verbatim>\<open>return 0\<close> of line 244 stands inside the test of
  \<^verbatim>\<open>print_stream_\<close>, and the loop tries the last step size again and again.
\<close>

theorem tune_without_stream_never_returns:
  "tune n flat_advi (Fin 0) \<lparr>gen = [], print_stream = None\<rparr> = None"
proof -
  have s: "tune_loop n flat_advi (flat_tuning 1 [1 / 2, 1 / 10, 1 / 20, 1 / 100] (- DBL_MAX) None)
          \<lparr>gen = [], print_stream = None\<rparr> = None"
    using DBL_MAX_pos by (intro flat_never_returns) simp_all
  have i: "\<lparr>variational = Fin 0,
            elbo_grad = q_of_dimension (family flat_advi) (num_params_r (model flat_advi)),
            params_prop = q_of_dimension (family flat_advi) (num_params_r (model flat_advi)),
            elbo = Fin 0, elbo_best = Fin (- DBL_MAX), eta = Fin 1,
            eta_sequence = [Fin (1 / 2), Fin (1 / 10), Fin (1 / 20), Fin (1 / 100)],
            elbo_init = Fin 0, eta_best = None\<rparr>
          = flat_tuning 1 [1 / 2, 1 / 10, 1 / 20, 1 / 100] (- DBL_MAX) None"
    by (simp add: flat_tuning_def advi_defs)
  show ?thesis
    by (simp add: tune_def flat_elbo Let_def i s)
qed

text \<open>
  With a print stream the same run ends in the fifth iteration: \<^verbatim>\<open>tune\<close> writes that
  all step sizes failed and returns 0.
\<close>

lemma tune_with_stream_returns_zero:
  "tune 5 flat_advi (Fin 0) \<lparr>gen = [], print_stream = Some []\<rparr> =
     Some (Returns (Fin 0), Fin 0,
           \<lparr>gen = [], print_stream = Some (trying 1 @ [Text ''FAILED.''] @ trying (1 / 2) @ [Text ''FAILED.''] @
              trying (1 / 10) @ [Text ''FAILED.''] @ trying (1 / 20) @ [Text ''FAILED.''] @ trying (1 / 100) @
              [Text ''FAILED.'', Text ''ALL STEP SIZES FAILED.''])\<rparr>)"
proof -
  have i: "\<lparr>variational = Fin 0,
            elbo_grad = q_of_dimension (family flat_advi) (num_params_r (model flat_advi)),
            params_prop = q_of_dimension (family flat_advi) (num_params_r (model flat_advi)),
            elbo = Fin 0, elbo_best = Fin (- DBL_MAX), eta = Fin 1,
            eta_sequence = [Fin (1 / 2), Fin (1 / 10), Fin (1 / 20), Fin (1 / 100)],
            elbo_init = Fin 0, eta_best = None\<rparr>
          = flat_tuning 1 [1 / 2, 1 / 10, 1 / 20, 1 / 100] (- DBL_MAX) None"
    by (simp add: flat_tuning_def advi_defs)
  have five: "(5::nat) = Suc (Suc (Suc (Suc (Suc 0))))"
    by simp
  show ?thesis
    using DBL_MAX_pos
    by (simp add: tune_def flat_elbo Let_def i five flat_round_next flat_round_fail gen_put
        put_def flat_fields)
qed

subsection \<open>The relative difference of the convergence check\<close>

lemma cb_size_two: "cb_size 2 1 = Some 2"
  by (simp add: cb_size_def static_cast_double_def dmax_def trunc_to_zero_def is_int_def INT_MIN_def INT_MAX_def)

lemma linear_advi_sel:
  "model (linear_advi c n e) = linear_model c"
  "family (linear_advi c n e) = location_family c"
  "advi_cont_params (linear_advi c n e) = [Fin 0]"
  "n_monte_carlo_grad (linear_advi c n e) = 1"
  "n_monte_carlo_elbo (linear_advi c n e) = n"
  "eval_elbo (linear_advi c n e) = e"
  by (simp_all add: linear_advi_def)

lemma linear_model_sel:
  "num_params_r (linear_model c) = 1"
  "model_log_prob (linear_model c) [] = Inl (Exception ''no parameter'')"
  "model_log_prob (linear_model c) (x # xs) = Inr (dmul (Fin c) x)"
  by (simp_all add: linear_model_def)

lemma location_family_sel:
  "q_of_dimension (location_family c) k = Fin 0"
  "q_of_params (location_family c) [] = Fin 0"
  "q_of_params (location_family c) (x # xs) = x"
  "q_dimension (location_family c) mu = 1"
  "q_sample (location_family c) mu [] = ([mu], [])"
  "q_sample (location_family c) mu (x # xs) = ([dadd mu x], xs)"
  "q_entropy (location_family c) mu = Fin 0"
  "q_calc_grad (location_family c) mu grad m ps n r = Inr (Fin c, r)"
  "q_square (location_family c) y = dmul y y"
  "q_sqrt (location_family c) = dsqrt"
  "q_add (location_family c) = dadd"
  "q_scale (location_family c) = dmul"
  "q_div (location_family c) = ddiv"
  "q_shift (location_family c) = dadd"
  by (simp_all add: location_family_def)

lemma DBL_MAX_below_one: "- 1 < DBL_MAX"
  using DBL_MAX_pos by simp

lemma linear_calc_ELBO:
  assumes "fl x = Fin x"
  shows "calc_ELBO (linear_advi 1 1 1) (Fin 0) (draws (Fin x # xs)) = (Inr (Fin x), draws xs)"
  using assms
  by (simp add: calc_ELBO_def calc_ELBO_loop.simps energy_def check_finite_def
      static_cast_double_def draws_def Let_def linear_advi_sel linear_model_sel
      location_family_sel fadd_def fdiv_def)

lemma linear_gradient_step:
  assumes "0 < it" and "pp = (if it = 1 then 0 else 1)"
  shows "gradient_step (linear_advi 1 1 1) (Fin 0) it (run_state gr pp e eb ep de da dm buf it going) w
           = (Inr (run_state 1 1 e eb ep de da dm buf it going), w)"
  using assms
  by (simp add: gradient_step_def calc_ELBO_grad_def check_size_match_def learning_tau_def
      pre_factor_def post_factor_def static_cast_double_def Let_def run_state_def
      linear_advi_sel linear_model_sel location_family_sel)

lemma first_check:
  "convergence_check (linear_advi 1 1 1) (Fin (1 / 100))
     (run_state 1 1 0 (- DBL_MAX) DBL_MIN DBL_MAX DBL_MAX DBL_MAX [] 1 True) (draws [Fin 1, Fin 2])
   = (Returns (run_state 1 1 1 1 0 1 1 1 [Fin 1] 1 True), draws [Fin 2])"
  by (simp add: convergence_check_def run_state_def linear_calc_ELBO fl_small Let_def dgreater_def
      DBL_MAX_below_one rel_difference_def dsub_def push_back_def circ_buff_median_def
      sorted_copy_def) (simp add: draws_def put_def)

lemma second_check:
  "convergence_check (linear_advi 1 1 1) (Fin (1 / 100))
     (run_state 1 1 1 1 0 1 1 1 [Fin 1] 2 True) (draws [Fin 2])
   = (Returns (run_state 1 1 2 2 1 (1 / 2) (3 / 4) 1 [Fin 1, Fin (1 / 2)] 2 True), draws [])"
  by (simp add: convergence_check_def run_state_def linear_calc_ELBO fl_small Let_def dgreater_def
      rel_difference_def dsub_def push_back_def circ_buff_median_def
      sorted_copy_def) (simp add: draws_def put_def)

lemma ascent_two_iterations:
  "ascent_loop (Suc (Suc n)) (linear_advi 1 1 1) (Fin 0) (Fin (1 / 100)) 2
     (run_state 0 0 0 (- DBL_MAX) DBL_MIN DBL_MAX DBL_MAX DBL_MAX [] 1 True) (draws [Fin 1, Fin 2])
   = Some (Returns (run_state 1 1 2 2 1 (1 / 2) (3 / 4) 1 [Fin 1, Fin (1 / 2)] 3 False), draws [])"
proof -
  have it: "iter_main (run_state gr pp e eb ep de da dm buf it going) = it"
    and go: "do_more_iterations (run_state gr pp e eb ep de da dm buf it going) = going"
    and inc: "(run_state gr pp e eb ep de da dm buf it going)\<lparr>iter_main := k\<rparr>
              = run_state gr pp e eb ep de da dm buf k going"
    and stop: "(run_state gr pp e eb ep de da dm buf it going)\<lparr>do_more_iterations := False\<rparr>
              = run_state gr pp e eb ep de da dm buf it False"
    for gr pp e eb ep de da dm buf it going k
    by (simp_all add: run_state_def)
  have p: "put ts (draws xs) = draws xs" for ts xs
    by (simp add: put_def draws_def)
  show ?thesis
    by (simp add: ascent_loop.simps(2) linear_gradient_step first_check second_check it go inc
        stop p c_rem_def linear_advi_sel INT_MAX_def Let_def)
qed

lemma best_update:
  "(if c then s\<lparr>elbo_best := x\<rparr> else s) = s\<lparr>elbo_best := (if c then x else elbo_best s)\<rparr>"
  by simp

lemma stop_update:
  "(if c then s\<lparr>do_more_iterations := False\<rparr> else s)
     = s\<lparr>do_more_iterations := (if c then False else do_more_iterations s)\<rparr>"
  by simp

lemma convergence_check_delta:
  assumes "convergence_check a tol st w = (Returns st', w')"
  shows "elbo_prev st' = elbo st \<and>
         delta_elbo st' = ddiv (dabs (dsub (elbo st) (elbo st'))) (dabs (elbo st')) \<and>
         elbo_diff st' = push_back (delta_elbo st') (elbo_diff st)"
proof -
  obtain r w1 where c: "calc_ELBO a (variational st) w = (r, w1)"
    by force
  show ?thesis
  proof (cases r)
    case (Inl e)
    then show ?thesis
      using assms c by (simp add: convergence_check_def)
  next
    case (Inr v)
    define d where "d = ddiv (dabs (dsub (elbo st) v)) (dabs v)"
    show ?thesis
    proof (cases "circ_buff_median (push_back d (elbo_diff st))")
      case None
      then show ?thesis
        using assms c Inr
        by (simp add: convergence_check_def Let_def rel_difference_def d_def best_update)
    next
      case (Some med)
      have "elbo_prev st' = elbo st \<and> elbo st' = v \<and> delta_elbo st' = d \<and>
            elbo_diff st' = push_back d (elbo_diff st)"
        using assms c Inr Some
        by (simp add: convergence_check_def Let_def rel_difference_def d_def best_update
            stop_update) auto
      then show ?thesis
        by (simp add: d_def)
    qed
  qed
qed

text \<open>
  C2, on the code. With step size parameter 0 on the log density \<open>\<zeta>\<close> the ELBO is the
  number drawn: 1 at the first check and 2 at the second. The buffer then holds 1 and
  1/2: the second difference is \<open>|1 - 2| / |2|\<close>, the change over the current ELBO,
  where the change over the previous ELBO, which \<^verbatim>\<open>rel_difference_(prev, curr)\<close> returns
  for \<open>prev = 1\<close> and \<open>curr = 2\<close>, is 1. Line 344 passes the current ELBO as \<^verbatim>\<open>prev\<close>.
\<close>

theorem ascent_pushes_difference_over_current:
  "stochastic_gradient_ascent 2 (linear_advi 1 1 1) (Fin 0) (Fin 0) (Fin (1 / 100)) 2
     \<lparr>gen = [Fin 1, Fin 2], print_stream = None\<rparr>
   = Some (Returns (run_state 1 1 2 2 1 (1 / 2) (3 / 4) 1 [Fin 1, Fin (1 / 2)] 3 False),
           \<lparr>gen = [], print_stream = None\<rparr>) \<and>
   contents (elbo_diff (run_state 1 1 2 2 1 (1 / 2) (3 / 4) 1 [Fin 1, Fin (1 / 2)] 3 False))
     = [Fin 1, Fin (1 / 2)] \<and>
   rel_difference (Fin 1) (Fin 2) = Fin 1"
proof -
  have fuel: "(2::nat) = Suc (Suc 0)"
    by simp
  have w: "put ts \<lparr>gen = [Fin 1, Fin 2], print_stream = None\<rparr>
             = \<lparr>gen = [Fin 1, Fin 2], print_stream = None\<rparr>" for ts
    by (simp add: put_def)
  have "stochastic_gradient_ascent (Suc (Suc 0)) (linear_advi 1 1 1) (Fin 0) (Fin 0)
          (Fin (1 / 100)) 2 \<lparr>gen = [Fin 1, Fin 2], print_stream = None\<rparr>
        = Some (Returns (run_state 1 1 2 2 1 (1 / 2) (3 / 4) 1 [Fin 1, Fin (1 / 2)] 3 False),
                \<lparr>gen = [], print_stream = None\<rparr>)"
    by (simp add: stochastic_gradient_ascent_def check_nonnegative_def check_positive_double_def
        check_positive_def dgreater_def cb_size_two linear_advi_sel linear_model_sel location_family_sel w
        ascent_two_iterations [of 0, unfolded draws_def run_state_def] run_state_def)
  then show ?thesis
    unfolding fuel by (simp add: run_state_def rel_difference_def dsub_def)
qed

end
